theory Spec2Isabelle
  imports
    Complex_Main
    "HOL-Library.Word"
    "HOL-Library.List_Lexorder"
begin

unbundle bit_operations_syntax

section \<open>JavaScript values\<close>

text \<open>
  A JavaScript string is the sequence of its UTF-16 code units, and \<open><\<close> on strings
  compares them lexicographically, code unit by code unit: the order of
  \<open>HOL-Library.List_Lexorder\<close> on lists of 16-bit words. A string literal of the source is
  written \<open>str ''...''\<close>, a character of one \<open>chr CHR ''.''\<close>.
\<close>

type_synonym jsstring = "16 word list"

definition chr :: "char \<Rightarrow> 16 word" where
  "chr c = of_nat (of_char c)"

definition str :: "string \<Rightarrow> jsstring" where
  "str s = map chr s"

text \<open>
  The handlers read request parameters, JSON body fields and environment variables. Each
  of them is taken to be a string, \<open>null\<close> or \<open>undefined\<close>; arrays, nested objects,
  numbers and booleans in a query string or a body are outside this development.
\<close>

datatype jsval = JUndefined | JNull | JStr jsstring

text \<open>An object literal or \<open>req.query\<close>: its own entries, in insertion order.\<close>

type_synonym jsobject = "(jsstring \<times> jsval) list"

text \<open>Property access \<open>obj.k\<close>: \<open>undefined\<close> when the object has no such entry.\<close>

definition getp :: "jsobject \<Rightarrow> jsstring \<Rightarrow> jsval" where
  "getp obj k = (case map_of obj k of None \<Rightarrow> JUndefined | Some v \<Rightarrow> v)"

text \<open>\<open>!v\<close> is true exactly for the falsy values.\<close>

definition falsy :: "jsval \<Rightarrow> bool" where
  "falsy v = (v = JUndefined \<or> v = JNull \<or> v = JStr [])"

text \<open>The text a template literal \<open>`${v}`\<close> inserts for a value.\<close>

fun valText :: "jsval \<Rightarrow> jsstring" where
  "valText JUndefined = str ''undefined''"
| "valText JNull = str ''null''"
| "valText (JStr s) = s"

text \<open>
  Setting a property, as the object literal \<open>{...obj, k: v}\<close> does: an existing entry is
  overwritten in place, a new one is appended.
\<close>

fun setp :: "jsobject \<Rightarrow> jsstring \<Rightarrow> jsval \<Rightarrow> jsobject" where
  "setp [] k v = [(k, v)]"
| "setp ((k', v') # ps) k v = (if k' = k then (k, v) # ps else (k', v') # setp ps k v)"

text \<open>\<open>Array.prototype.join\<close> on a list of strings.\<close>

fun join :: "jsstring \<Rightarrow> jsstring list \<Rightarrow> jsstring" where
  "join sep [] = []"
| "join sep [x] = x"
| "join sep (x # y # ys) = x @ sep @ join sep (y # ys)"

section \<open>Numbers\<close>

text \<open>
  A JavaScript number is \<open>NaN\<close>, an infinity, or a finite binary64 value, kept as the
  rational it denotes. The rounding of an exact value to the nearest number, which every
  arithmetic operation and every conversion of a decimal ends with, is a parameter
  \<open>toNumber\<close> of everything that computes with numbers; on values that binary64 holds
  exactly (such as 0.5) it is \<open>Num\<close>. Negative zero is not told apart from zero: \<open>!==\<close> does
  not tell them apart either.
\<close>

datatype jsnum = NaN | PosInfinity | NegInfinity | Num rat

text \<open>\<open>a !== b\<close> on numbers: \<open>NaN\<close> differs from every number, itself included.\<close>

definition strictNe :: "jsnum \<Rightarrow> jsnum \<Rightarrow> bool" where
  "strictNe a b = (a = NaN \<or> b = NaN \<or> a \<noteq> b)"

definition pow2 :: "int \<Rightarrow> rat" where
  "pow2 e = (if 0 \<le> e then 2 ^ nat e else 1 / 2 ^ nat (- e))"

definition pow10 :: "int \<Rightarrow> rat" where
  "pow10 e = (if 0 \<le> e then 10 ^ nat e else 1 / 10 ^ nat (- e))"

text \<open>
  What IEEE 754 says of the platform's arithmetic: the finite binary64 values are the
  products of an integer below \<open>2^53\<close> in magnitude and a power of two from \<open>2^-1074\<close> to
  \<open>2^971\<close>, and the result of an operation is one of them nearest to the exact result.
\<close>

definition binary64 :: "rat set" where
  "binary64 = {of_int m * pow2 e | m e. \<bar>m\<bar> < 2 ^ 53 \<and> - 1074 \<le> e \<and> e \<le> 971}"

definition nearest64 :: "rat \<Rightarrow> rat \<Rightarrow> bool" where
  "nearest64 x p = (p \<in> binary64 \<and> (\<forall>q\<in>binary64. \<bar>p - x\<bar> \<le> \<bar>q - x\<bar>))"

section \<open>Signature codec (server/lib/zpay.mjs)\<close>

text \<open>The filter of \<open>buildSignString\<close>.\<close>

definition signable :: "jsstring \<times> jsval \<Rightarrow> bool" where
  "signable kv =
     (snd kv \<noteq> JStr [] \<and> snd kv \<noteq> JNull \<and> snd kv \<noteq> JUndefined \<and>
      fst kv \<noteq> str ''sign'' \<and> fst kv \<noteq> str ''sign_type'')"

text \<open>The \<open>map\<close> step of \<open>buildSignString\<close>: \<open>`${k}=${v}`\<close>.\<close>

definition pairText :: "jsstring \<times> jsval \<Rightarrow> jsstring" where
  "pairText kv = fst kv @ str ''='' @ valText (snd kv)"

text \<open>
  \<open>buildSignString\<close>: filter, sort by key with the comparator
  \<open>a < b ? -1 : a > b ? 1 : 0\<close> (the sort of JavaScript is stable, as \<^const>\<open>sort_key\<close>
  is), render each entry, join with \<open>&\<close>.
\<close>

definition buildSignString :: "jsobject \<Rightarrow> jsstring" where
  "buildSignString params =
     join (str ''&'') (map pairText (sort_key fst (filter signable params)))"

text \<open>
  \<open>digest("hex")\<close>: the 128 bits of an MD5 digest as 32 lowercase hexadecimal digits, most
  significant first. The digest function itself belongs to the \<open>crypto\<close> module of the
  platform and is a parameter \<open>md5\<close> of everything that signs.
\<close>

definition hexDigit :: "nat \<Rightarrow> 16 word" where
  "hexDigit n = chr (''0123456789abcdef'' ! (n mod 16))"

definition digestHex :: "128 word \<Rightarrow> jsstring" where
  "digestHex w = map (\<lambda>i. hexDigit (unat (drop_bit (4 * (31 - i)) w AND 15))) [0..<32]"

definition generateSign :: "(jsstring \<Rightarrow> 128 word) \<Rightarrow> jsobject \<Rightarrow> jsstring \<Rightarrow> jsstring" where
  "generateSign md5 params key = digestHex (md5 (buildSignString params @ key))"

definition verifySign :: "(jsstring \<Rightarrow> 128 word) \<Rightarrow> jsobject \<Rightarrow> jsstring \<Rightarrow> bool" where
  "verifySign md5 params key =
     (if falsy (getp params (str ''sign'')) then False
      else getp params (str ''sign'') = JStr (generateSign md5 params key))"

text \<open>
  The canonical string as the specification words it, on the parameter mapping: the keys
  that are neither reserved nor carry an empty or absent value, in ascending order; the
  first as \<open>key=value\<close>, every further one as \<open>&key=value\<close>.
\<close>

definition canonicalKeys :: "(jsstring \<rightharpoonup> jsval) \<Rightarrow> jsstring set" where
  "canonicalKeys m =
     {k \<in> dom m. m k \<noteq> Some (JStr []) \<and> m k \<noteq> Some JNull \<and> m k \<noteq> Some JUndefined \<and>
        k \<noteq> str ''sign'' \<and> k \<noteq> str ''sign_type''}"

definition keyValue :: "(jsstring \<rightharpoonup> jsval) \<Rightarrow> jsstring \<Rightarrow> jsstring" where
  "keyValue m k = k @ chr CHR ''='' # valText (the (m k))"

definition canonicalize :: "(jsstring \<rightharpoonup> jsval) \<Rightarrow> jsstring" where
  "canonicalize m =
     (case sorted_list_of_set (canonicalKeys m) of
        [] \<Rightarrow> []
      | k # ks \<Rightarrow> keyValue m k @ concat (map (\<lambda>k'. chr CHR ''&'' # keyValue m k') ks))"

text \<open>
  The UTF-8 bytes of a string, for the byte order of keys: surrogate pairs are one code
  point of four bytes, a lone surrogate is encoded as U+FFFD.
\<close>

fun codePoints :: "jsstring \<Rightarrow> nat list" where
  "codePoints [] = []"
| "codePoints [u] = [unat u]"
| "codePoints (u # v # r) =
     (if 0xD800 \<le> u \<and> u \<le> 0xDBFF \<and> 0xDC00 \<le> v \<and> v \<le> 0xDFFF
      then (0x10000 + (unat u - 0xD800) * 0x400 + (unat v - 0xDC00)) # codePoints r
      else unat u # codePoints (v # r))"

definition utf8CodePoint :: "nat \<Rightarrow> 8 word list" where
  "utf8CodePoint c =
     (if c < 0x80 then [of_nat c]
      else if c < 0x800 then [of_nat (0xC0 + c div 64), of_nat (0x80 + c mod 64)]
      else if 0xD800 \<le> c \<and> c \<le> 0xDFFF then [0xEF, 0xBF, 0xBD]
      else if c < 0x10000 then
        [of_nat (0xE0 + c div 4096), of_nat (0x80 + c div 64 mod 64), of_nat (0x80 + c mod 64)]
      else
        [of_nat (0xF0 + c div 262144), of_nat (0x80 + c div 4096 mod 64),
         of_nat (0x80 + c div 64 mod 64), of_nat (0x80 + c mod 64)])"

definition utf8 :: "jsstring \<Rightarrow> 8 word list" where
  "utf8 s = concat (map utf8CodePoint (codePoints s))"

text \<open>A string of ASCII characters only.\<close>

definition ascii :: "jsstring \<Rightarrow> bool" where
  "ascii s = list_all (\<lambda>c. c < 0x80) s"

section \<open>Order numbers (generateOrderNo)\<close>

text \<open>\<open>String(n)\<close> for an integer: its decimal digits, with a minus sign below zero.\<close>

definition digitChar :: "nat \<Rightarrow> 16 word" where
  "digitChar n = chr (''0123456789'' ! (n mod 10))"

fun natText :: "nat \<Rightarrow> jsstring" where
  "natText n = (if n < 10 then [digitChar n] else natText (n div 10) @ [digitChar (n mod 10)])"

declare natText.simps [simp del]

definition numText :: "int \<Rightarrow> jsstring" where
  "numText i = (if i < 0 then chr CHR ''-'' # natText (nat (- i)) else natText (nat i))"

text \<open>\<open>s.padStart(l, c)\<close> with a one-character filler.\<close>

definition padStart :: "nat \<Rightarrow> 16 word \<Rightarrow> jsstring \<Rightarrow> jsstring" where
  "padStart l c s = replicate (l - length s) c @ s"

text \<open>
  What the getters of \<open>new Date()\<close> return: \<open>getFullYear\<close>, \<open>getMonth\<close> (from 0),
  \<open>getDate\<close>, \<open>getHours\<close>, \<open>getMinutes\<close>, \<open>getSeconds\<close>.
\<close>

record date =
  fullYear :: int
  month :: int
  dayOfMonth :: int
  hours :: int
  minutes :: int
  seconds :: int

text \<open>The local helper \<open>p\<close> of \<open>generateOrderNo\<close>, at its default width 2.\<close>

definition p2 :: "int \<Rightarrow> jsstring" where
  "p2 n = padStart 2 (chr CHR ''0'') (numText n)"

text \<open>
  \<open>generateOrderNo\<close> reads the clock and \<open>Math.random()\<close>; both are arguments here. The
  product \<open>Math.random() * 900\<close> is the exact product rounded by \<open>toNumber\<close>. Its floor is an
  integer far below \<open>2^53\<close> on every number \<open>Math.random()\<close> returns, so the sum with 100 is
  exact and its text is its decimal digits; the texts of \<open>NaN\<close> and the infinities stand
  for completeness.
\<close>

definition generateOrderNo :: "(rat \<Rightarrow> jsnum) \<Rightarrow> date \<Rightarrow> rat \<Rightarrow> jsstring" where
  "generateOrderNo toNumber d random =
     (let ts = numText (fullYear d) @ p2 (month d + 1) @ p2 (dayOfMonth d) @ p2 (hours d) @
               p2 (minutes d) @ p2 (seconds d)
      in case toNumber (random * 900) of
           Num product \<Rightarrow> ts @ numText (\<lfloor>product\<rfloor> + 100)
         | NaN \<Rightarrow> ts @ str ''NaN''
         | PosInfinity \<Rightarrow> ts @ str ''Infinity''
         | NegInfinity \<Rightarrow> ts @ str ''-Infinity'')"

text \<open>The ranges the getters of a date guarantee.\<close>

definition validDate :: "date \<Rightarrow> bool" where
  "validDate d =
     (0 \<le> month d \<and> month d \<le> 11 \<and> 1 \<le> dayOfMonth d \<and> dayOfMonth d \<le> 31 \<and>
      0 \<le> hours d \<and> hours d \<le> 23 \<and> 0 \<le> minutes d \<and> minutes d \<le> 59 \<and>
      0 \<le> seconds d \<and> seconds d \<le> 59)"

text \<open>
  The vocabulary of the specification of order numbers: a number written with exactly
  \<open>w\<close> decimal digits, zero-padded; a decimal digit; the number a digit string denotes.
\<close>

definition fixedWidth :: "nat \<Rightarrow> nat \<Rightarrow> jsstring" where
  "fixedWidth w n = map (\<lambda>i. digitChar (n div 10 ^ (w - 1 - i) mod 10)) [0..<w]"

definition isDigit :: "16 word \<Rightarrow> bool" where
  "isDigit c = (c \<in> set (str ''0123456789''))"

definition decimalValue :: "jsstring \<Rightarrow> nat" where
  "decimalValue s = foldl (\<lambda>a c. 10 * a + (unat c - 48)) 0 s"

section \<open>parseFloat\<close>

text \<open>
  The code units \<open>parseFloat\<close> skips at the start of its argument: the white space and the
  line terminators of ECMAScript (tab, line feed, vertical tab, form feed, carriage return,
  space, no-break space, the Unicode space separators, line and paragraph separator, and
  the byte order mark).
\<close>

definition isWhiteSpace :: "16 word \<Rightarrow> bool" where
  "isWhiteSpace c =
     (c \<in> {0x0009, 0x000A, 0x000B, 0x000C, 0x000D, 0x0020, 0x00A0, 0x1680,
            0x2000, 0x2001, 0x2002, 0x2003, 0x2004, 0x2005, 0x2006, 0x2007, 0x2008, 0x2009,
            0x200A, 0x2028, 0x2029, 0x202F, 0x205F, 0x3000, 0xFEFF})"

text \<open>
  \<open>ExponentPart\<close> at the head of a string: \<open>e\<close> or \<open>E\<close>, an optional sign, digits. The
  exponent is 0 when the part is missing or has no digit.
\<close>

definition exponentPart :: "jsstring \<Rightarrow> int" where
  "exponentPart s =
     (case s of
        [] \<Rightarrow> 0
      | e # t \<Rightarrow>
          if e = chr CHR ''e'' \<or> e = chr CHR ''E'' then
            (case t of
               [] \<Rightarrow> 0
             | c # u \<Rightarrow>
                 if c = chr CHR ''-'' then - int (decimalValue (takeWhile isDigit u))
                 else if c = chr CHR ''+'' then int (decimalValue (takeWhile isDigit u))
                 else int (decimalValue (takeWhile isDigit t)))
          else 0)"

datatype literal = Infinite | Finite rat

text \<open>
  The longest prefix that is a \<open>StrUnsignedDecimalLiteral\<close>, and its value: \<open>Infinity\<close>, or
  digits with an optional fraction and exponent, at least one digit before the exponent.
\<close>

definition strUnsignedDecimalLiteral :: "jsstring \<Rightarrow> literal option" where
  "strUnsignedDecimalLiteral s =
     (if take 8 s = str ''Infinity'' then Some Infinite
      else
        let ip = takeWhile isDigit s;
            r = dropWhile isDigit s;
            fp = (case r of [] \<Rightarrow> [] | c # t \<Rightarrow> if c = chr CHR ''.'' then takeWhile isDigit t else []);
            rest = (case r of [] \<Rightarrow> [] | c # t \<Rightarrow> if c = chr CHR ''.'' then dropWhile isDigit t else r)
        in if ip = [] \<and> fp = [] then None
           else Some (Finite ((of_nat (decimalValue ip) + of_nat (decimalValue fp) / 10 ^ length fp)
                              * pow10 (exponentPart rest))))"

text \<open>\<open>parseFloat(v)\<close>: the text of \<open>v\<close>, leading white space skipped, an optional sign.\<close>

definition parseFloat :: "(rat \<Rightarrow> jsnum) \<Rightarrow> jsval \<Rightarrow> jsnum" where
  "parseFloat toNumber v =
     (let s = dropWhile isWhiteSpace (valText v);
          neg = (case s of [] \<Rightarrow> False | c # t \<Rightarrow> c = chr CHR ''-'');
          body = (case s of [] \<Rightarrow> [] | c # t \<Rightarrow> if c = chr CHR ''+'' \<or> c = chr CHR ''-'' then t else s)
      in case strUnsignedDecimalLiteral body of
           None \<Rightarrow> NaN
         | Some Infinite \<Rightarrow> if neg then NegInfinity else PosInfinity
         | Some (Finite q) \<Rightarrow> toNumber (if neg then - q else q))"

section \<open>The table zpay\_transactions\<close>

datatype status = Pending | Paid | Analyzed

text \<open>
  A row, with the columns the handlers read or write (\<open>id\<close> and \<open>param\<close> are never
  touched). \<open>None\<close> is SQL \<open>NULL\<close>; \<open>amount\<close> is the value of the \<open>DECIMAL(10, 2)\<close> column.
\<close>

record transaction =
  out_trade_no :: jsstring
  trade_no :: "jsstring option"
  uid :: jsstring
  amount :: rat
  pay_type :: "jsstring option"
  trade_status :: "jsstring option"
  status :: status
  created_at :: nat
  updated_at :: nat

type_synonym table = "transaction list"

text \<open>
  What the storage service does during one request: whether the select, the update or the
  insert reports an error (for any reason other than a duplicate \<open>out_trade_no\<close>), and
  the time.
\<close>

record backend =
  queryError :: bool
  updateError :: bool
  dbError :: bool
  now :: nat

text \<open>
  \<open>.select().eq("out_trade_no", v).single()\<close>: the row when exactly one matches. The
  handlers treat an error and a missing row alike (\<open>queryError || !order\<close>).
\<close>

definition selectSingle :: "bool \<Rightarrow> table \<Rightarrow> jsstring \<Rightarrow> transaction option" where
  "selectSingle failed db otn =
     (if failed then None
      else case filter (\<lambda>r. out_trade_no r = otn) db of [r] \<Rightarrow> Some r | _ \<Rightarrow> None)"

text \<open>
  \<open>.update(f).eq("out_trade_no", v).eq("status", st)\<close>: every matching row is rewritten;
  no matching row is no error. \<open>None\<close> is a reported error, with nothing written.
\<close>

definition updateWhere ::
  "bool \<Rightarrow> table \<Rightarrow> jsstring \<Rightarrow> status \<Rightarrow> (transaction \<Rightarrow> transaction) \<Rightarrow> table option" where
  "updateWhere failed db otn st f =
     (if failed then None
      else Some (map (\<lambda>r. if out_trade_no r = otn \<and> status r = st then f r else r) db))"

text \<open>\<open>.insert(row)\<close>: \<open>out_trade_no\<close> is \<open>UNIQUE\<close>.\<close>

definition insertRow :: "bool \<Rightarrow> table \<Rightarrow> transaction \<Rightarrow> table option" where
  "insertRow failed db row =
     (if failed \<or> out_trade_no row \<in> set (map out_trade_no db) then None
      else Some (db @ [row]))"

text \<open>
  A number written to the \<open>DECIMAL(10, 2) NOT NULL\<close> column: rounded to two places, half
  away from zero; out of range, \<open>NaN\<close> and the infinities are errors.
\<close>

definition numeric_10_2 :: "jsnum \<Rightarrow> rat option" where
  "numeric_10_2 n =
     (case n of
        Num q \<Rightarrow>
          (let cents = \<lfloor>\<bar>q\<bar> * 100 + 1 / 2\<rfloor>
           in if cents < 10 ^ 10 then Some (sgn q * of_int cents / 100) else None)
      | _ \<Rightarrow> None)"

section \<open>Configuration and responses\<close>

text \<open>The environment variables the server reads; an unset one is \<open>undefined\<close>.\<close>

record env =
  ZPAY_PID :: jsval
  ZPAY_KEY :: jsval
  NEXT_PUBLIC_BASE_URL :: jsval
  NEXT_PUBLIC_SUPABASE_URL :: jsval
  SUPABASE_SERVICE_ROLE_KEY :: jsval

text \<open>\<open>createServerAdminClient\<close> returns a client unless it throws for a missing variable.\<close>

definition supabaseConfigured :: "env \<Rightarrow> bool" where
  "supabaseConfigured e =
     (\<not> falsy (NEXT_PUBLIC_SUPABASE_URL e) \<and> \<not> falsy (SUPABASE_SERVICE_ROLE_KEY e))"

text \<open>\<open>getZpayConfig\<close> returns the configuration unless it throws for a missing variable.\<close>

definition zpayConfigured :: "env \<Rightarrow> bool" where
  "zpayConfigured e =
     (\<not> falsy (ZPAY_PID e) \<and> \<not> falsy (ZPAY_KEY e) \<and> \<not> falsy (NEXT_PUBLIC_BASE_URL e))"

definition PAYMENT_REQUIRED :: "env \<Rightarrow> bool" where
  "PAYMENT_REQUIRED e = (\<not> falsy (NEXT_PUBLIC_SUPABASE_URL e) \<and> \<not> falsy (ZPAY_PID e))"

text \<open>
  The error texts of the JSON responses, by the place that sends them: a missing \<open>uid\<close>,
  an unknown \<open>pay_type\<close>, the message thrown by \<open>getZpayConfig\<close>, the message thrown by
  \<open>createServerAdminClient\<close>, a failed insert; then, for the analysis, a missing image,
  a missing order number, an unknown order, an order already used, an order not yet
  paid, a failed update.
\<close>

datatype message =
  MissingUid | BadPayType | ZpayConfigMissing | SupabaseConfigMissing | CreateOrderFailed
| MissingImage | PayFirst | OrderNotFound | OrderUsed | OrderUnpaid | ServerError

text \<open>
  A response: \<open>res.status(c).send(text)\<close> with the literal text of the source,
  \<open>res.status(c).json({success: false, error})\<close>, or the checkout's
  \<open>{success: true, url, out_trade_no}\<close>, whose URL is kept as its base and the entries of
  its query string.
\<close>

datatype response =
  Send nat string
| JsonFail nat message
| JsonCheckout jsstring jsobject jsstring

section \<open>POST /api/checkout/providers/zpay/url\<close>

definition ZPAY_SUBMIT_URL :: jsstring where
  "ZPAY_SUBMIT_URL = str ''https://zpayz.cn/submit.php''"

definition ORDER_AMOUNT :: jsstring where
  "ORDER_AMOUNT = str ''0.50''"

text \<open>The product name: seven Chinese characters.\<close>

definition PRODUCT_NAME :: jsstring where
  "PRODUCT_NAME = [0x989C, 0x7A76, 0x9662, 0x989C, 0x503C, 0x5206, 0x6790]"

text \<open>
  The handler. \<open>gen k\<close> is what the \<open>k\<close>-th call of \<open>generateOrderNo\<close> in this request
  would read from the clock and \<open>Math.random()\<close>; the handler calls it once. The result
  is the response and the table.
\<close>

definition checkout ::
  "(jsstring \<Rightarrow> 128 word) \<Rightarrow> (rat \<Rightarrow> jsnum) \<Rightarrow> env \<Rightarrow> backend \<Rightarrow> (nat \<Rightarrow> date \<times> rat) \<Rightarrow>
   jsobject \<Rightarrow> table \<Rightarrow> response \<times> table" where
  "checkout md5 toNumber e be gen body db =
     (let uid = getp body (str ''uid'');
          pay_type =
            (case getp body (str ''pay_type'') of JUndefined \<Rightarrow> JStr (str ''alipay'') | v \<Rightarrow> v)
      in if falsy uid then (JsonFail 400 MissingUid, db)
         else if pay_type \<noteq> JStr (str ''alipay'') \<and> pay_type \<noteq> JStr (str ''wxpay'') then
           (JsonFail 400 BadPayType, db)
         else if \<not> zpayConfigured e then (JsonFail 500 ZpayConfigMissing, db)
         else
           let otn = generateOrderNo toNumber (fst (gen 0)) (snd (gen 0))
           in if \<not> supabaseConfigured e then (JsonFail 500 SupabaseConfigMissing, db)
              else
                case (case numeric_10_2 (parseFloat toNumber (JStr ORDER_AMOUNT)) of
                        None \<Rightarrow> None
                      | Some a \<Rightarrow>
                          insertRow (dbError be) db
                            \<lparr>out_trade_no = otn, trade_no = None, uid = valText uid, amount = a,
                             pay_type = Some (valText pay_type), trade_status = None,
                             status = Pending, created_at = now be, updated_at = now be\<rparr>) of
                  None \<Rightarrow> (JsonFail 500 CreateOrderFailed, db)
                | Some db' \<Rightarrow>
                    let params =
                          [(str ''pid'', ZPAY_PID e), (str ''name'', JStr PRODUCT_NAME),
                           (str ''money'', JStr ORDER_AMOUNT), (str ''out_trade_no'', JStr otn),
                           (str ''notify_url'', JStr (valText (NEXT_PUBLIC_BASE_URL e) @
                              str ''/api/checkout/providers/zpay/webhook'')),
                           (str ''return_url'', JStr (valText (NEXT_PUBLIC_BASE_URL e))),
                           (str ''type'', pay_type)];
                        sign = generateSign md5 params (valText (ZPAY_KEY e))
                    in (JsonCheckout ZPAY_SUBMIT_URL
                          (setp (setp params (str ''sign'') (JStr sign)) (str ''sign_type'')
                             (JStr (str ''MD5''))) otn,
                        db'))"

section \<open>GET /api/checkout/providers/zpay/webhook\<close>

text \<open>
  A column of the update object: an \<open>undefined\<close> property is not sent and leaves the
  column as it is, \<open>null\<close> writes \<open>NULL\<close>.
\<close>

definition column :: "jsval \<Rightarrow> jsstring option \<Rightarrow> jsstring option" where
  "column v old = (case v of JUndefined \<Rightarrow> old | JNull \<Rightarrow> None | JStr s \<Rightarrow> Some s)"

definition markPaid :: "backend \<Rightarrow> jsobject \<Rightarrow> transaction \<Rightarrow> transaction" where
  "markPaid be params r =
     r\<lparr>status := Paid,
       trade_no := column (getp params (str ''trade_no'')) (trade_no r),
       trade_status := column (getp params (str ''trade_status'')) (trade_status r),
       pay_type := column (getp params (str ''type'')) (pay_type r),
       updated_at := now be\<rparr>"

text \<open>
  The handler up to its update: \<open>Some\<close> response when it returns before writing, \<open>None\<close>
  when it goes on to the conditional update. The stored amount reaches the handler as a
  number, and \<open>parseFloat\<close> of a number is that number.
\<close>

definition webhookCheck ::
  "(jsstring \<Rightarrow> 128 word) \<Rightarrow> (rat \<Rightarrow> jsnum) \<Rightarrow> env \<Rightarrow> backend \<Rightarrow> jsobject \<Rightarrow> table \<Rightarrow>
   response option" where
  "webhookCheck md5 toNumber e be params db =
     (if falsy (ZPAY_KEY e) then Some (Send 500 ''error'')
      else if \<not> verifySign md5 params (valText (ZPAY_KEY e)) then Some (Send 400 ''sign error'')
      else if getp params (str ''trade_status'') \<noteq> JStr (str ''TRADE_SUCCESS'') then Some (Send 200 ''success'')
      else if \<not> supabaseConfigured e then Some (Send 500 ''error'')
      else
        case selectSingle (queryError be) db (valText (getp params (str ''out_trade_no''))) of
          None \<Rightarrow> Some (Send 404 ''order not found'')
        | Some order \<Rightarrow>
            if status order \<noteq> Pending then Some (Send 200 ''success'')
            else if strictNe (parseFloat toNumber (getp params (str ''money''))) (toNumber (amount order))
            then Some (Send 400 ''amount mismatch'')
            else None)"

text \<open>The conditional update and what follows it, on the table as the update finds it.\<close>

definition webhookWrite :: "backend \<Rightarrow> jsobject \<Rightarrow> table \<Rightarrow> response \<times> table" where
  "webhookWrite be params db =
     (case updateWhere (updateError be) db (valText (getp params (str ''out_trade_no''))) Pending
             (markPaid be params) of
        None \<Rightarrow> (Send 500 ''error'', db)
      | Some db' \<Rightarrow> (Send 200 ''success'', db'))"

text \<open>The whole handler, when no other request writes between its select and its update.\<close>

definition webhook ::
  "(jsstring \<Rightarrow> 128 word) \<Rightarrow> (rat \<Rightarrow> jsnum) \<Rightarrow> env \<Rightarrow> backend \<Rightarrow> jsobject \<Rightarrow> table \<Rightarrow>
   response \<times> table" where
  "webhook md5 toNumber e be params db =
     (case webhookCheck md5 toNumber e be params db of
        Some r \<Rightarrow> (r, db)
      | None \<Rightarrow> webhookWrite be params db)"

section \<open>POST /api/analyze: the payment check\<close>

text \<open>
  What the handler does about a request: answer it, or go on to the analysis (the call of
  the vision model, which is not part of this development).
\<close>

datatype outcome = Respond response | RunAnalysis

text \<open>
  The handler up to its update: it rejects the request, or goes on to consume the order,
  or skips the payment check because payment is not required.
\<close>

datatype gate = Reject response | Consume | Skip

definition analyzeCheck :: "env \<Rightarrow> backend \<Rightarrow> jsobject \<Rightarrow> table \<Rightarrow> gate" where
  "analyzeCheck e be body db =
     (if falsy (getp body (str ''image'')) then Reject (JsonFail 400 MissingImage)
      else if PAYMENT_REQUIRED e then
        (if falsy (getp body (str ''out_trade_no'')) then Reject (JsonFail 402 PayFirst)
         else if \<not> supabaseConfigured e then Reject (JsonFail 500 SupabaseConfigMissing)
         else
           case selectSingle (queryError be) db (valText (getp body (str ''out_trade_no''))) of
             None \<Rightarrow> Reject (JsonFail 404 OrderNotFound)
           | Some order \<Rightarrow>
               if status order = Analyzed then Reject (JsonFail 409 OrderUsed)
               else if status order \<noteq> Paid then Reject (JsonFail 402 OrderUnpaid)
               else Consume)
      else Skip)"

definition markAnalyzed :: "backend \<Rightarrow> transaction \<Rightarrow> transaction" where
  "markAnalyzed be r = r\<lparr>status := Analyzed, updated_at := now be\<rparr>"

text \<open>The conditional update and what follows it, on the table as the update finds it.\<close>

definition analyzeWrite :: "backend \<Rightarrow> jsobject \<Rightarrow> table \<Rightarrow> outcome \<times> table" where
  "analyzeWrite be body db =
     (case updateWhere (updateError be) db (valText (getp body (str ''out_trade_no''))) Paid
             (markAnalyzed be) of
        None \<Rightarrow> (Respond (JsonFail 500 ServerError), db)
      | Some db' \<Rightarrow> (RunAnalysis, db'))"

text \<open>The payment check, when no other request writes between its select and its update.\<close>

definition analyze :: "env \<Rightarrow> backend \<Rightarrow> jsobject \<Rightarrow> table \<Rightarrow> outcome \<times> table" where
  "analyze e be body db =
     (case analyzeCheck e be body db of
        Reject r \<Rightarrow> (Respond r, db)
      | Skip \<Rightarrow> (RunAnalysis, db)
      | Consume \<Rightarrow> analyzeWrite be body db)"

section \<open>Sequences of operations\<close>

text \<open>
  The operations that write the status of an order after its creation: a webhook callback
  or a payment check run as a whole, and, for requests that overlap in time, the update of
  either alone, applied to the table as it then is.
\<close>

datatype operation =
  Webhook env backend jsobject
| Analyze env backend jsobject
| WebhookWrite backend jsobject
| AnalyzeWrite backend jsobject

fun exec :: "(jsstring \<Rightarrow> 128 word) \<Rightarrow> (rat \<Rightarrow> jsnum) \<Rightarrow> operation \<Rightarrow> table \<Rightarrow> table" where
  "exec md5 toNumber (Webhook e be params) db = snd (webhook md5 toNumber e be params db)"
| "exec md5 toNumber (Analyze e be body) db = snd (analyze e be body db)"
| "exec md5 toNumber (WebhookWrite be params) db = snd (webhookWrite be params db)"
| "exec md5 toNumber (AnalyzeWrite be body) db = snd (analyzeWrite be body db)"

text \<open>The tables a sequence of operations goes through, the first one included.\<close>

fun trace :: "(jsstring \<Rightarrow> 128 word) \<Rightarrow> (rat \<Rightarrow> jsnum) \<Rightarrow> operation list \<Rightarrow> table \<Rightarrow> table list" where
  "trace md5 toNumber [] db = [db]"
| "trace md5 toNumber (x # xs) db = db # trace md5 toNumber xs (exec md5 toNumber x db)"

text \<open>One step of a status, as the specification allows it: none, or one state forward.\<close>

definition forwardStep :: "status \<Rightarrow> status \<Rightarrow> bool" where
  "forwardStep s s' = (s' = s \<or> (s = Pending \<and> s' = Paid) \<or> (s = Paid \<and> s' = Analyzed))"

definition sameOrderForward :: "transaction \<Rightarrow> transaction \<Rightarrow> bool" where
  "sameOrderForward r r' =
     (out_trade_no r' = out_trade_no r \<and> forwardStep (status r) (status r'))"

fun rank :: "status \<Rightarrow> nat" where
  "rank Pending = 0"
| "rank Paid = 1"
| "rank Analyzed = 2"

section \<open>Example data\<close>

text \<open>
  A provider's notification: the parameters with their signature and its type, as the
  checkout's own \<open>{...params, sign, sign_type: "MD5"}\<close> builds them.
\<close>

definition signed :: "(jsstring \<Rightarrow> 128 word) \<Rightarrow> jsobject \<Rightarrow> jsstring \<Rightarrow> jsobject" where
  "signed md5 params key =
     setp (setp params (str ''sign'') (JStr (generateSign md5 params key)))
       (str ''sign_type'') (JStr (str ''MD5''))"

text \<open>
  A stand-in digest, an environment, a backend without errors, one order, a signed
  notification for it, a body of the analysis request, and two readings of the clock and
  the random number generator that give the order's number and the next one.
\<close>

definition exDigest :: "jsstring \<Rightarrow> 128 word" where
  "exDigest s = of_nat (length s)"

definition exEnv :: env where
  "exEnv =
     \<lparr>ZPAY_PID = JStr (str ''1001''), ZPAY_KEY = JStr (str ''secret''),
      NEXT_PUBLIC_BASE_URL = JStr (str ''https://shop.example''),
      NEXT_PUBLIC_SUPABASE_URL = JStr (str ''https://db.example''),
      SUPABASE_SERVICE_ROLE_KEY = JStr (str ''role'')\<rparr>"

definition exBackend :: backend where
  "exBackend = \<lparr>queryError = False, updateError = False, dbError = False, now = 7\<rparr>"

definition exOrder :: "status \<Rightarrow> transaction" where
  "exOrder st =
     \<lparr>out_trade_no = str ''20260219120000123'', trade_no = None, uid = str ''u1'',
      amount = 1 / 2, pay_type = Some (str ''alipay''), trade_status = None, status = st,
      created_at = 1, updated_at = 1\<rparr>"

definition exCallback :: "jsstring \<Rightarrow> jsobject" where
  "exCallback money =
     signed exDigest
       [(str ''pid'', JStr (str ''1001'')), (str ''trade_no'', JStr (str ''T77'')),
        (str ''out_trade_no'', JStr (str ''20260219120000123'')),
        (str ''type'', JStr (str ''wxpay'')), (str ''money'', JStr money),
        (str ''trade_status'', JStr (str ''TRADE_SUCCESS''))]
       (str ''secret'')"

definition exBody :: jsobject where
  "exBody = [(str ''image'', JStr (str ''data:image/jpeg;base64,AAAA'')),
             (str ''out_trade_no'', JStr (str ''20260219120000123''))]"

definition exDate :: date where
  "exDate = \<lparr>fullYear = 2026, month = 1, dayOfMonth = 19, hours = 12, minutes = 0, seconds = 0\<rparr>"

definition exGen :: "nat \<Rightarrow> date \<times> rat" where
  "exGen k = (if k = 0 then (exDate, 23 / 900) else (exDate, 24 / 900))"

definition exCheckoutBody :: jsobject where
  "exCheckoutBody = [(str ''uid'', JStr (str ''u2''))]"

definition exOps :: "operation list" where
  "exOps =
     [Webhook exEnv exBackend (exCallback (str ''0.50'')), Analyze exEnv exBackend exBody,
      Webhook exEnv exBackend (exCallback (str ''0.50''))]"

section \<open>String literals\<close>

lemma unat_chr: "unat (chr c) = of_char c"
proof -
  have "(of_char c :: nat) mod 256 < 256" by (rule mod_less_divisor) simp
  then have "(of_char c :: nat) < 256" by (simp only: of_char_mod_256)
  then have "(of_char c :: nat) < 65536" by linarith
  then show ?thesis by (simp add: chr_def unat_of_nat take_bit_nat_eq_self)
qed

lemma chr_eq_iff [simp]: "chr a = chr b \<longleftrightarrow> a = b"
proof
  assume "chr a = chr b"
  then have "unat (chr a) = unat (chr b)" by simp
  then have "(of_char a :: nat) = of_char b" by (simp only: unat_chr)
  then show "a = b" by simp
qed simp

lemma str_eq_iff [simp]: "str a = str b \<longleftrightarrow> a = b"
proof -
  have "inj chr" by (rule injI) simp
  then show ?thesis unfolding str_def by (rule inj_map_eq_map)
qed

lemma str_Nil [simp]: "str [] = []"
  by (simp add: str_def)

lemma str_Cons: "str (c # s) = chr c # str s"
  by (simp add: str_def)

lemma str_eq_Nil [simp]: "str s = [] \<longleftrightarrow> s = []"
  by (simp add: str_def)

section \<open>Properties of the signature codec\<close>

lemma keys_signable:
  assumes "distinct (map fst params)"
  shows "set (map fst (filter signable params)) = canonicalKeys (map_of params)"
proof (rule set_eqI)
  fix k
  show "k \<in> set (map fst (filter signable params)) \<longleftrightarrow> k \<in> canonicalKeys (map_of params)"
  proof
    assume "k \<in> set (map fst (filter signable params))"
    then obtain v where kv: "(k, v) \<in> set params" and s: "signable (k, v)" by auto
    from assms kv have "map_of params k = Some v" by simp
    with s show "k \<in> canonicalKeys (map_of params)"
      by (auto simp: canonicalKeys_def signable_def)
  next
    assume "k \<in> canonicalKeys (map_of params)"
    then obtain v where m: "map_of params k = Some v" and
      p: "v \<noteq> JStr []" "v \<noteq> JNull" "v \<noteq> JUndefined" "k \<noteq> str ''sign''" "k \<noteq> str ''sign_type''"
      by (auto simp: canonicalKeys_def)
    from m have "(k, v) \<in> set params" by (rule map_of_SomeD)
    moreover from p have "signable (k, v)" by (simp add: signable_def)
    ultimately show "k \<in> set (map fst (filter signable params))" by force
  qed
qed

lemma map_insort_key: "map f (insort_key f x xs) = insort (f x) (map f xs)"
  by (induction xs) simp_all

lemma map_fst_sort_key: "map fst (sort_key fst xs) = sort (map fst xs)"
  by (induction xs) (simp_all add: map_insort_key)

lemma sorted_keys_signable:
  assumes "distinct (map fst params)"
  shows "map fst (sort_key fst (filter signable params)) =
         sorted_list_of_set (canonicalKeys (map_of params))"
proof -
  have d: "distinct (map fst (filter signable params))"
    using assms by (rule distinct_map_filter)
  have "sorted_list_of_set (canonicalKeys (map_of params)) =
        sort (remdups (map fst (filter signable params)))"
    unfolding keys_signable [OF assms, symmetric] by (rule sorted_list_of_set_sort_remdups)
  also have "\<dots> = sort (map fst (filter signable params))"
    using d by (simp add: distinct_remdups_id)
  finally show ?thesis by (simp add: map_fst_sort_key)
qed

lemma join_Cons: "join sep (x # xs) = x @ concat (map (\<lambda>y. sep @ y) xs)"
  by (induction xs arbitrary: x) simp_all

lemma buildSignString_refines:
  assumes "distinct (map fst params)"
  shows "buildSignString params = canonicalize (map_of params)"
proof -
  let ?es = "sort_key fst (filter signable params)"
  let ?m = "map_of params"
  have "pairText kv = keyValue ?m (fst kv)" if "kv \<in> set ?es" for kv
  proof -
    from that have "kv \<in> set params" by simp
    with assms have "map_of params (fst kv) = Some (snd kv)" by simp
    then show ?thesis by (simp add: pairText_def keyValue_def str_Cons)
  qed
  then have "map pairText ?es = map (keyValue ?m) (map fst ?es)" by simp
  also have "\<dots> = map (keyValue ?m) (sorted_list_of_set (canonicalKeys ?m))"
    by (simp only: sorted_keys_signable [OF assms])
  finally have "buildSignString params =
      join (str ''&'') (map (keyValue ?m) (sorted_list_of_set (canonicalKeys ?m)))"
    by (simp only: buildSignString_def)
  then show ?thesis
    by (cases "sorted_list_of_set (canonicalKeys ?m)")
      (simp_all add: canonicalize_def join_Cons str_Cons comp_def)
qed

lemma codePoints_ascii: "ascii s \<Longrightarrow> codePoints s = map unat s"
proof (induction s rule: codePoints.induct)
  case (3 u v r)
  from "3.prems" have u: "u < 0x80" and rest: "ascii (v # r)" by (simp_all add: ascii_def)
  from u have "\<not> 0xD800 \<le> u" by (simp add: word_less_nat_alt word_le_nat_alt)
  with "3.IH"(2) rest show ?case by simp
qed simp_all

lemma utf8CodePoint_ascii:
  fixes c :: "16 word"
  assumes "c < 0x80"
  shows "utf8CodePoint (unat c) = [ucast c]"
proof -
  from assms have "unat c < 0x80" by (simp add: word_less_nat_alt)
  then show ?thesis by (simp add: utf8CodePoint_def)
qed

lemma utf8_ascii: "ascii s \<Longrightarrow> utf8 s = map ucast s"
proof -
  assume a: "ascii s"
  then have "concat (map (\<lambda>c. utf8CodePoint (unat c)) s) = map ucast s"
    by (induction s) (simp_all add: ascii_def utf8CodePoint_ascii)
  with a show ?thesis by (simp add: utf8_def codePoints_ascii comp_def)
qed

lemma ucast_ascii_less:
  fixes a b :: "16 word"
  assumes "a < 0x80" "b < 0x80"
  shows "(ucast a :: 8 word) < ucast b \<longleftrightarrow> a < b"
    and "(ucast a :: 8 word) = ucast b \<longleftrightarrow> a = b"
proof -
  from assms have u: "unat a < 256" "unat b < 256" by (simp_all add: word_less_nat_alt)
  then have "unat (ucast a :: 8 word) = unat a" "unat (ucast b :: 8 word) = unat b"
    by (simp_all add: unsigned_ucast_eq take_bit_nat_eq_self unsigned_take_bit_eq)
  then show "(ucast a :: 8 word) < ucast b \<longleftrightarrow> a < b"
    and "(ucast a :: 8 word) = ucast b \<longleftrightarrow> a = b"
    by (simp_all add: word_less_nat_alt word_unat_eq_iff)
qed

lemma ascii_byte_order:
  "ascii a \<Longrightarrow> ascii b \<Longrightarrow> (utf8 a \<le> utf8 b \<longleftrightarrow> a \<le> b)"
proof -
  assume a: "ascii a" and b: "ascii b"
  have "(map ucast a :: 8 word list) \<le> map ucast b \<longleftrightarrow> a \<le> b" using a b
  proof (induction a arbitrary: b)
    case Nil
    then show ?case by simp
  next
    case (Cons x xs)
    show ?case
    proof (cases b)
      case Nil
      then show ?thesis by simp
    next
      case (Cons y ys)
      with Cons.prems have "x < 0x80" "y < 0x80" "ascii xs" "ascii ys"
        by (simp_all add: ascii_def)
      with Cons.IH [of ys] Cons show ?thesis
        by (simp add: ucast_ascii_less)
    qed
  qed
  with a b show ?thesis by (simp add: utf8_ascii)
qed

lemma finite_canonicalKeys: "finite (canonicalKeys (map_of params))"
proof -
  have "canonicalKeys (map_of params) \<subseteq> dom (map_of params)"
    by (auto simp: canonicalKeys_def)
  then show ?thesis by (rule finite_subset) (rule finite_dom_map_of)
qed

lemma ascii_keys_byte_sorted:
  assumes "list_all ascii (map fst params)"
  shows "sorted (map utf8 (sorted_list_of_set (canonicalKeys (map_of params))))"
proof -
  let ?ks = "sorted_list_of_set (canonicalKeys (map_of params))"
  have "set ?ks \<subseteq> fst ` set params"
    using finite_canonicalKeys [of params]
    by (auto simp: canonicalKeys_def dom_map_of_conv_image_fst)
  with assms have a: "ascii k" if "k \<in> set ?ks" for k
    using that by (auto simp: list_all_iff)
  have "sorted_wrt (\<le>) ?ks" by simp
  then have "sorted_wrt (\<lambda>x y. utf8 x \<le> utf8 y) ?ks"
    by (rule sorted_wrt_mono_rel [rotated]) (simp add: ascii_byte_order a)
  then show ?thesis by (simp only: sorted_map)
qed

text \<open>
  Claim C7, as amended. For a parameter object (its keys are distinct), \<open>buildSignString\<close>
  returns the canonical string of the mapping the object denotes: exactly the entries with
  an empty or absent (\<open>null\<close>, \<open>undefined\<close>) value and the keys \<open>sign\<close> and \<open>sign_type\<close>
  are dropped, the remaining keys stand in ascending order of their UTF-16 code units, the
  first rendered \<open>key=value\<close> and every further one \<open>&key=value\<close>. When all keys are
  ASCII, this is the ascending order of their bytes. The result depends on the mapping
  alone, not on the order of the entries; the function is a pure function.
\<close>

theorem buildSignString_canonical:
  assumes "distinct (map fst params)"
  shows "buildSignString params = canonicalize (map_of params) \<and>
         (list_all ascii (map fst params) \<longrightarrow>
            sorted (map utf8 (sorted_list_of_set (canonicalKeys (map_of params)))))"
  using buildSignString_refines [OF assms] ascii_keys_byte_sorted by blast

theorem buildSignString_canonical_witness:
  "distinct (map fst [(str ''b'', JStr (str ''2'')), (str ''sign'', JStr (str ''zz'')),
      (str ''a'', JStr (str ''1'')), (str ''c'', JStr (str '''')),
      (str ''sign_type'', JStr (str ''MD5'')), (str ''d'', JNull)]) \<and>
   list_all ascii (map fst [(str ''b'', JStr (str ''2'')), (str ''sign'', JStr (str ''zz'')),
      (str ''a'', JStr (str ''1'')), (str ''c'', JStr (str '''')),
      (str ''sign_type'', JStr (str ''MD5'')), (str ''d'', JNull)]) \<and>
   canonicalize (map_of [(str ''b'', JStr (str ''2'')), (str ''sign'', JStr (str ''zz'')),
      (str ''a'', JStr (str ''1'')), (str ''c'', JStr (str '''')),
      (str ''sign_type'', JStr (str ''MD5'')), (str ''d'', JNull)]) = str ''a=1&b=2'' \<and>
   sorted (map utf8 (sorted_list_of_set (canonicalKeys (map_of
     [(str ''b'', JStr (str ''2'')), (str ''sign'', JStr (str ''zz'')),
      (str ''a'', JStr (str ''1'')), (str ''c'', JStr (str '''')),
      (str ''sign_type'', JStr (str ''MD5'')), (str ''d'', JNull)]))))"
proof -
  let ?P = "[(str ''b'', JStr (str ''2'')), (str ''sign'', JStr (str ''zz'')),
      (str ''a'', JStr (str ''1'')), (str ''c'', JStr (str '''')),
      (str ''sign_type'', JStr (str ''MD5'')), (str ''d'', JNull)]"
  have d: "distinct (map fst ?P)" by simp
  have a: "list_all ascii (map fst ?P)" by (simp add: ascii_def str_def chr_def)
  have b: "buildSignString ?P = str ''a=1&b=2''"
    by (simp add: buildSignString_def signable_def pairText_def str_def chr_def)
  from buildSignString_canonical [OF d] a b d show ?thesis by simp
qed

text \<open>
  Claim C7, as stated, fails: the order of the keys is not the order of their bytes. The
  key U+FF5E comes before the key U+1F600 by its UTF-8 bytes and after it by its UTF-16
  code units, and \<open>buildSignString\<close> puts the entry of U+1F600 first.
\<close>

theorem buildSignString_not_byte_order:
  "utf8 [0xFF5E] < utf8 [0xD83D, 0xDE00] \<and>
   buildSignString [([0xFF5E], JStr (str ''1'')), ([0xD83D, 0xDE00], JStr (str ''2''))]
     = [0xD83D, 0xDE00] @ str ''=2&'' @ [0xFF5E] @ str ''=1''"
  by (simp add: utf8_def utf8CodePoint_def buildSignString_def signable_def pairText_def
      str_def chr_def)

lemma getp_setp: "getp (setp obj k v) k = v"
  by (induction obj) (auto simp: getp_def)

lemma getp_setp_other: "k' \<noteq> k \<Longrightarrow> getp (setp obj k v) k' = getp obj k'"
  by (induction obj) (auto simp: getp_def)

lemma filter_signable_setp_sign: "filter signable (setp obj (str ''sign'') v) = filter signable obj"
  by (induction obj) (auto simp: signable_def)

lemma filter_signable_setp_sign_type:
  "filter signable (setp obj (str ''sign_type'') v) = filter signable obj"
  by (induction obj) (auto simp: signable_def)

lemma buildSignString_setp_sign: "buildSignString (setp obj (str ''sign'') v) = buildSignString obj"
  by (simp add: buildSignString_def filter_signable_setp_sign)

lemma length_digestHex: "length (digestHex w) = 32"
  by (simp add: digestHex_def)

lemma generateSign_nonempty: "generateSign md5 params key \<noteq> []"
proof
  assume "generateSign md5 params key = []"
  then have "length (generateSign md5 params key) = 0" by simp
  then show False by (simp add: generateSign_def length_digestHex)
qed

text \<open>
  Claim C6. \<open>verifySign\<close> is false when the object has no \<open>sign\<close> entry; it is true
  exactly when the supplied \<open>sign\<close> is the string \<open>generateSign\<close> computes from the same
  parameters and key (the \<open>sign\<close> entry itself does not enter the signed string); and
  parameters extended with their own signature verify.
\<close>

theorem verifySign_iff_sign_matches:
  "(map_of params (str ''sign'') = None \<longrightarrow> \<not> verifySign md5 params key) \<and>
   (verifySign md5 params key \<longleftrightarrow>
      getp params (str ''sign'') = JStr (generateSign md5 params key)) \<and>
   verifySign md5 (setp params (str ''sign'') (JStr (generateSign md5 params key))) key"
proof (intro conjI impI)
  assume "map_of params (str ''sign'') = None"
  then show "\<not> verifySign md5 params key"
    by (simp add: verifySign_def getp_def falsy_def)
next
  show "verifySign md5 params key \<longleftrightarrow>
      getp params (str ''sign'') = JStr (generateSign md5 params key)"
    using generateSign_nonempty [of md5 params key]
    by (auto simp: verifySign_def falsy_def)
next
  let ?s = "generateSign md5 params key"
  have "generateSign md5 (setp params (str ''sign'') (JStr ?s)) key = ?s"
    by (simp add: generateSign_def buildSignString_setp_sign)
  then show "verifySign md5 (setp params (str ''sign'') (JStr ?s)) key"
    using generateSign_nonempty [of md5 params key]
    by (simp add: verifySign_def getp_setp falsy_def)
qed

theorem verifySign_iff_sign_matches_witness:
  "map_of [(str ''money'', JStr (str ''0.50''))] (str ''sign'') = None \<and>
   \<not> verifySign (\<lambda>s. of_nat (length s)) [(str ''money'', JStr (str ''0.50''))] (str ''k'') \<and>
   generateSign (\<lambda>s. of_nat (length s)) [(str ''money'', JStr (str ''0.50''))] (str ''k'')
     = str ''0000000000000000000000000000000b'' \<and>
   verifySign (\<lambda>s. of_nat (length s))
     [(str ''money'', JStr (str ''0.50'')),
      (str ''sign'', JStr (str ''0000000000000000000000000000000b''))] (str ''k'')"
proof -
  have g: "generateSign (\<lambda>s. of_nat (length s)) [(str ''money'', JStr (str ''0.50''))] (str ''k'')
     = str ''0000000000000000000000000000000b''"
    by (simp add: generateSign_def buildSignString_def signable_def pairText_def
        digestHex_def hexDigit_def upt_rec str_def)
  show ?thesis
    using verifySign_iff_sign_matches [of "[(str ''money'', JStr (str ''0.50''))]"
        "\<lambda>s. of_nat (length s)" "str ''k''"]
    by (simp add: g)
qed

text \<open>
  Claim C10. \<open>verifySign\<close> returns false for every falsy \<open>sign\<close> (\<open>undefined\<close>, \<open>null\<close>,
  the empty string), whatever the digest function and the key: the early return comes
  before the signature is recomputed.
\<close>

theorem verifySign_falsy_sign:
  "falsy (getp params (str ''sign'')) \<Longrightarrow> \<not> verifySign md5 params key"
  by (simp add: verifySign_def)

theorem verifySign_falsy_sign_witness:
  "falsy (getp [(str ''money'', JStr (str ''0.50'')), (str ''sign'', JStr (str ''''))] (str ''sign'')) \<and>
   \<not> verifySign (\<lambda>s. 0) [(str ''money'', JStr (str ''0.50'')), (str ''sign'', JStr (str ''''))]
       (str ''secret'')"
proof -
  have f: "falsy (getp [(str ''money'', JStr (str ''0.50'')), (str ''sign'', JStr (str ''''))] (str ''sign''))"
    by (simp add: falsy_def getp_def)
  from f verifySign_falsy_sign [OF f] show ?thesis by simp
qed

section \<open>Properties of binary64 rounding\<close>

lemma zero_binary64: "0 \<in> binary64"
proof -
  have "(0::rat) = of_int 0 * pow2 0" by simp
  moreover have "\<bar>0::int\<bar> < 2 ^ 53 \<and> - 1074 \<le> (0::int) \<and> (0::int) \<le> 971" by simp
  ultimately show ?thesis unfolding binary64_def by blast
qed

lemma below_900_binary64: "900 - 1 / 2 ^ 43 \<in> binary64"
proof -
  have "(900 - 1 / 2 ^ 43 :: rat) = of_int (900 * 2 ^ 43 - 1) * pow2 (- 43)"
    by (simp add: pow2_def)
  moreover have "\<bar>900 * 2 ^ 43 - 1 :: int\<bar> < 2 ^ 53 \<and> - 1074 \<le> (- 43 :: int) \<and> (- 43 :: int) \<le> 971"
    by simp
  ultimately show ?thesis unfolding binary64_def by blast
qed

lemma binary64_below_one:
  assumes "r \<in> binary64" and "r < 1"
  shows "r \<le> 1 - 1 / 2 ^ 53"
proof -
  from assms(1) obtain m e where r: "r = of_int m * pow2 e" and m: "\<bar>m\<bar> < 2 ^ 53"
    unfolding binary64_def by blast
  show ?thesis
  proof (cases "0 \<le> e")
    case True
    then have "r = of_int (m * 2 ^ nat e)" by (simp add: r pow2_def)
    with assms(2) have "of_int (m * 2 ^ nat e) < (of_int 1 :: rat)" by simp
    then have "m * 2 ^ nat e < 1" by (simp only: of_int_less_iff)
    then have "m * 2 ^ nat e \<le> 0" by simp
    then have "(of_int (m * 2 ^ nat e) :: rat) \<le> of_int 0" by (simp only: of_int_le_iff)
    with \<open>r = of_int (m * 2 ^ nat e)\<close> have "r \<le> 0" by simp
    then show ?thesis by simp
  next
    case False
    define k where "k = nat (- e)"
    from False have rk: "r = of_int m / 2 ^ k" by (simp add: r pow2_def k_def)
    have pos: "(0::rat) < 2 ^ k" by simp
    from assms(2) rk pos have "of_int m < (2 ^ k :: rat)" by (simp add: pos_divide_less_eq)
    then have "of_int m < (of_int (2 ^ k) :: rat)" by simp
    then have "m < 2 ^ k" by (simp only: of_int_less_iff)
    then have mk: "m \<le> 2 ^ k - 1" by simp
    show ?thesis
    proof (cases "m \<le> 0")
      case True
      then have "(of_int m :: rat) \<le> 0" by simp
      with pos have "r \<le> 0" unfolding rk by (simp add: divide_le_0_iff)
      then show ?thesis by simp
    next
      case mpos: False
      show ?thesis
      proof (cases "k \<le> 53")
        case True
        from mk have "(of_int m :: rat) \<le> of_int (2 ^ k - 1)" by (simp only: of_int_le_iff)
        then have "(of_int m :: rat) \<le> 2 ^ k - 1" by simp
        then have "r \<le> (2 ^ k - 1) / 2 ^ k" unfolding rk using pos by (simp add: divide_right_mono)
        also have "\<dots> = 1 - 1 / 2 ^ k" by (simp add: diff_divide_distrib)
        also have "\<dots> \<le> 1 - 1 / 2 ^ 53"
        proof -
          from True have "(2::rat) ^ k \<le> 2 ^ 53" by (intro power_increasing) simp_all
          then have "1 / (2::rat) ^ 53 \<le> 1 / 2 ^ k" using pos by (intro divide_left_mono) simp_all
          then show ?thesis by linarith
        qed
        finally show ?thesis .
      next
        case False
        then have "(2::rat) ^ 53 \<le> 2 ^ k" by (intro power_increasing) simp_all
        from m have "m \<le> 2 ^ 53 - 1" by simp
        then have "(of_int m :: rat) \<le> of_int (2 ^ 53 - 1)" by (simp only: of_int_le_iff)
        then have le: "(of_int m :: rat) \<le> 2 ^ 53 - 1" by simp
        from mpos have mp: "(0::rat) \<le> of_int m" by simp
        have "r \<le> of_int m / 2 ^ 53"
          unfolding rk using mp \<open>(2::rat) ^ 53 \<le> 2 ^ k\<close> by (intro divide_left_mono) simp_all
        also have "\<dots> \<le> (2 ^ 53 - 1) / 2 ^ 53" using le by (intro divide_right_mono) simp_all
        also have "\<dots> = 1 - 1 / 2 ^ 53" by (simp add: diff_divide_distrib)
        finally show ?thesis .
      qed
    qed
  qed
qed

lemma rounded_product_bounds:
  assumes "random \<in> binary64" and "0 \<le> random" and "random < 1"
    and "nearest64 (random * 900) product"
  shows "0 \<le> product" and "product < 900"
proof -
  let ?x = "random * 900"
  from assms(2) have x0: "0 \<le> ?x" by simp
  from assms(1,3) have "random \<le> 1 - 1 / 2 ^ 53" by (rule binary64_below_one)
  then have x1: "?x \<le> 900 - 900 / 2 ^ 53" by simp
  from assms(4) zero_binary64 have n0: "\<bar>product - ?x\<bar> \<le> \<bar>0 - ?x\<bar>"
    unfolding nearest64_def by blast
  from assms(4) below_900_binary64 have n1: "\<bar>product - ?x\<bar> \<le> \<bar>900 - 1 / 2 ^ 43 - ?x\<bar>"
    unfolding nearest64_def by blast
  from n0 x0 show "0 \<le> product" by linarith
  have "(900::rat) / 2 ^ 53 > 1 / 2 ^ 43 - 900 / 2 ^ 53" and "(0::rat) < 1 / 2 ^ 43" by simp_all
  with n1 x1 show "product < 900" by linarith
qed

section \<open>Properties of order numbers\<close>

lemma natText_1: "n < 10 \<Longrightarrow> natText n = [digitChar n]"
  by (simp add: natText.simps)

lemma natText_step: "10 \<le> n \<Longrightarrow> natText n = natText (n div 10) @ [digitChar (n mod 10)]"
  by (subst natText.simps) simp

lemma fixedWidth_Suc: "fixedWidth (Suc w) n = fixedWidth w (n div 10) @ [digitChar (n mod 10)]"
proof -
  have "n div 10 ^ (w - i) = n div 10 div 10 ^ (w - 1 - i)" if "i < w" for i
  proof -
    from that have "w - i = Suc (w - 1 - i)" by simp
    then show ?thesis by (simp add: div_mult2_eq)
  qed
  then show ?thesis by (simp add: fixedWidth_def)
qed

lemma natText_fixedWidth:
  "0 < w \<Longrightarrow> 10 ^ (w - 1) \<le> n \<Longrightarrow> n < 10 ^ w \<Longrightarrow> natText n = fixedWidth w n"
proof (induction w arbitrary: n)
  case 0
  then show ?case by simp
next
  case (Suc w)
  show ?case
  proof (cases "w = 0")
    case True
    with Suc.prems have "n < 10" by simp
    then show ?thesis using True by (simp add: natText_1 fixedWidth_def digitChar_def)
  next
    case False
    then obtain v where w: "w = Suc v" by (cases w) auto
    from Suc.prems w have lo: "10 * 10 ^ v \<le> n" and hi: "n < 10 * 10 ^ w" by simp_all
    from lo have "10 \<le> n" by (rule order_trans [rotated]) simp
    from lo have "10 ^ (w - 1) \<le> n div 10" using w by simp
    moreover from hi have "n div 10 < 10 ^ w" by simp
    ultimately have "natText (n div 10) = fixedWidth w (n div 10)"
      using False by (intro Suc.IH) simp_all
    with \<open>10 \<le> n\<close> show ?thesis by (simp add: natText_step fixedWidth_Suc)
  qed
qed

lemma length_fixedWidth: "length (fixedWidth w n) = w"
  by (simp add: fixedWidth_def)

lemma p2_fixed:
  assumes "0 \<le> n" "n \<le> 99"
  shows "p2 n = fixedWidth 2 (nat n)"
proof (cases "n < 10")
  case True
  with assms have "nat n < 10" by simp
  then have "numText n = [digitChar (nat n)]" using assms by (simp add: numText_def natText_1)
  moreover have "fixedWidth 2 (nat n) = [chr CHR ''0'', digitChar (nat n)]"
    using \<open>nat n < 10\<close> by (simp add: fixedWidth_def upt_rec digitChar_def)
  ultimately show ?thesis by (simp add: p2_def padStart_def)
next
  case False
  with assms have "10 ^ (2 - 1) \<le> nat n" "nat n < 10 ^ 2" by simp_all
  then have "natText (nat n) = fixedWidth 2 (nat n)" by (intro natText_fixedWidth) simp_all
  then show ?thesis using assms by (simp add: p2_def padStart_def numText_def length_fixedWidth)
qed

lemma digit_cases: "k mod 10 \<in> {0, 1, 2, 3, 4, 5, 6, 7, 8, 9 :: nat}"
proof -
  have "k mod 10 < 10" by simp
  then show ?thesis by (simp only: insert_iff empty_iff) arith
qed

lemma digitChar_value: "unat (digitChar k) = 48 + k mod 10"
  using digit_cases [of k] unfolding digitChar_def unat_chr by auto

lemma decimalValue_snoc: "decimalValue (s @ [c]) = 10 * decimalValue s + (unat c - 48)"
  by (simp add: decimalValue_def)

lemma decimalValue_fixedWidth: "decimalValue (fixedWidth w n) = n mod 10 ^ w"
proof (induction w arbitrary: n)
  case 0
  then show ?case by (simp add: fixedWidth_def decimalValue_def)
next
  case (Suc w)
  have "n mod (10 * 10 ^ w) = 10 * (n div 10 mod 10 ^ w) + n mod 10"
    by (simp add: mod_mult2_eq)
  then show ?case by (simp add: fixedWidth_Suc decimalValue_snoc Suc.IH digitChar_value)
qed

lemma isDigit_digitChar: "isDigit (digitChar k)"
  using digit_cases [of k] unfolding digitChar_def isDigit_def str_def by auto

lemma list_all_isDigit_fixedWidth: "list_all isDigit (fixedWidth w n)"
  by (simp add: fixedWidth_def list_all_iff isDigit_digitChar)

text \<open>
  Claim C9. At a date with a four-digit year, for a number \<open>random\<close> in [0, 1) that
  \<open>Math.random()\<close> returns and the product \<open>random * 900\<close> as binary64 arithmetic rounds
  it, the order number is the year in four digits, then month (from 1), day, hour, minute
  and second in two digits each, zero-padded, then a three-digit suffix: seventeen decimal
  digits, the last three of which denote the floor of the product plus 100, a number from
  100 to 999.
\<close>

theorem generateOrderNo_format:
  assumes "validDate d" and "1000 \<le> fullYear d" and "fullYear d \<le> 9999"
    and "random \<in> binary64" and "0 \<le> random" and "random < 1"
    and "toNumber (random * 900) = Num product" and "nearest64 (random * 900) product"
  shows "generateOrderNo toNumber d random =
           fixedWidth 4 (nat (fullYear d)) @ fixedWidth 2 (nat (month d + 1)) @
           fixedWidth 2 (nat (dayOfMonth d)) @ fixedWidth 2 (nat (hours d)) @
           fixedWidth 2 (nat (minutes d)) @ fixedWidth 2 (nat (seconds d)) @
           fixedWidth 3 (nat (\<lfloor>product\<rfloor> + 100)) \<and>
         length (generateOrderNo toNumber d random) = 17 \<and>
         list_all isDigit (generateOrderNo toNumber d random) \<and>
         decimalValue (drop 14 (generateOrderNo toNumber d random)) = nat \<lfloor>product\<rfloor> + 100 \<and>
         100 \<le> decimalValue (drop 14 (generateOrderNo toNumber d random)) \<and>
         decimalValue (drop 14 (generateOrderNo toNumber d random)) \<le> 999"
proof -
  let ?r = "\<lfloor>product\<rfloor> + 100"
  let ?g = "generateOrderNo toNumber d random"
  from assms(4,5,6,8) have "0 \<le> product" "product < 900" by (rule rounded_product_bounds)+
  then have "0 \<le> \<lfloor>product\<rfloor>" "\<lfloor>product\<rfloor> < 900" by (simp_all add: floor_less_iff)
  then have r: "0 \<le> \<lfloor>product\<rfloor>" "\<lfloor>product\<rfloor> \<le> 899" by simp_all
  from assms(2,3) have "10 ^ (4 - 1) \<le> nat (fullYear d)" "nat (fullYear d) < 10 ^ 4"
    by simp_all
  then have "natText (nat (fullYear d)) = fixedWidth 4 (nat (fullYear d))"
    by (intro natText_fixedWidth) simp_all
  with assms(2) have y: "numText (fullYear d) = fixedWidth 4 (nat (fullYear d))"
    by (simp add: numText_def)
  from r have n: "nat ?r = nat \<lfloor>product\<rfloor> + 100" "nat \<lfloor>product\<rfloor> \<le> 899"
    by linarith+
  then have "10 ^ (3 - 1) \<le> nat ?r" "nat ?r < 10 ^ 3" by simp_all
  then have "natText (nat ?r) = fixedWidth 3 (nat ?r)"
    by (intro natText_fixedWidth) simp_all
  moreover from r have "\<not> ?r < 0" by linarith
  ultimately have s: "numText ?r = fixedWidth 3 (nat ?r)" by (simp only: numText_def if_False)
  from assms(1) have p: "p2 (month d + 1) = fixedWidth 2 (nat (month d + 1))"
    "p2 (dayOfMonth d) = fixedWidth 2 (nat (dayOfMonth d))"
    "p2 (hours d) = fixedWidth 2 (nat (hours d))"
    "p2 (minutes d) = fixedWidth 2 (nat (minutes d))"
    "p2 (seconds d) = fixedWidth 2 (nat (seconds d))"
    by (simp_all add: validDate_def p2_fixed)
  have eq: "?g =
           fixedWidth 4 (nat (fullYear d)) @ fixedWidth 2 (nat (month d + 1)) @
           fixedWidth 2 (nat (dayOfMonth d)) @ fixedWidth 2 (nat (hours d)) @
           fixedWidth 2 (nat (minutes d)) @ fixedWidth 2 (nat (seconds d)) @
           fixedWidth 3 (nat ?r)"
    by (simp add: generateOrderNo_def Let_def assms(7) y s p)
  have len: "length ?g = 17"
    by (simp add: eq length_fixedWidth)
  have dig: "list_all isDigit ?g"
    by (simp add: eq list_all_isDigit_fixedWidth)
  have "drop 14 ?g = fixedWidth 3 (nat ?r)"
    by (simp add: eq length_fixedWidth)
  then have "decimalValue (drop 14 ?g) = nat ?r mod 10 ^ 3"
    by (simp only: decimalValue_fixedWidth)
  with n have val: "decimalValue (drop 14 ?g) = nat \<lfloor>product\<rfloor> + 100"
    by simp
  from eq len dig val n(2) show ?thesis by simp
qed

lemma pow2_shift:
  assumes "- 43 \<le> e"
  shows "pow2 e = 2 ^ nat (e + 43) / 2 ^ 43"
proof (cases "0 \<le> e")
  case True
  then have "nat (e + 43) = nat e + 43" by simp
  then show ?thesis using True by (simp add: pow2_def power_add)
next
  case False
  with assms have "nat (e + 43) + nat (- e) = 43" by simp
  then have "(2::rat) ^ 43 = 2 ^ nat (e + 43) * 2 ^ nat (- e)" by (simp flip: power_add)
  then show ?thesis using False by (simp add: pow2_def field_simps)
qed

text \<open>
  The number nearest to 0.99, times 900: the exact product lies \<open>9 / 2^50\<close> below 891, and
  891 is the binary64 value nearest to it.
\<close>

lemma nearest64_891: "nearest64 (4458563631096791 / 2 ^ 52 * 900) 891"
proof -
  let ?x = "4458563631096791 / 2 ^ 52 * 900 :: rat"
  have x: "?x = 891 - 9 / 2 ^ 50" by simp
  have "(891::rat) = of_int 891 * pow2 0" by (simp add: pow2_def)
  moreover have "\<bar>891 :: int\<bar> < 2 ^ 53 \<and> - 1074 \<le> (0::int) \<and> (0::int) \<le> 971" by simp
  ultimately have in64: "(891::rat) \<in> binary64" unfolding binary64_def by blast
  have "\<bar>891 - ?x\<bar> \<le> \<bar>q - ?x\<bar>" if "q \<in> binary64" for q
  proof (rule ccontr)
    assume "\<not> \<bar>891 - ?x\<bar> \<le> \<bar>q - ?x\<bar>"
    then have "\<bar>q - (891 - 9 / 2 ^ 50)\<bar> < 9 / 2 ^ 50" by (simp add: x)
    then have q: "891 - 18 / 2 ^ 50 < q" "q < 891" by linarith+
    from that obtain m e where qm: "q = of_int m * pow2 e" and m: "\<bar>m\<bar> < 2 ^ 53"
      unfolding binary64_def by blast
    show False
    proof (cases "- 43 \<le> e")
      case True
      define z where "z = m * 2 ^ nat (e + 43)"
      have "q * 2 ^ 43 = of_int z" by (simp add: qm pow2_shift [OF True] z_def)
      moreover from q have "891 * 2 ^ 43 - 1 < q * 2 ^ 43" "q * 2 ^ 43 < 891 * 2 ^ 43" by simp_all
      ultimately have "(of_int (891 * 2 ^ 43 - 1) :: rat) < of_int z"
        "(of_int z :: rat) < of_int (891 * 2 ^ 43)" by simp_all
      then have "891 * 2 ^ 43 - 1 < z" "z < 891 * 2 ^ 43" by (simp_all only: of_int_less_iff)
      then show False by simp
    next
      case False
      define k where "k = nat (- e)"
      from False have k: "44 \<le> k" by (simp add: k_def)
      from False have "q = of_int m / 2 ^ k" by (simp add: qm pow2_def k_def)
      moreover from m have "m < 2 ^ 53" by simp
      then have "(of_int m :: rat) < of_int (2 ^ 53)" by (simp only: of_int_less_iff)
      then have "(of_int m :: rat) < 2 ^ 53" by simp
      ultimately have "q < 2 ^ 53 / 2 ^ k" by (simp add: divide_strict_right_mono)
      also have "\<dots> \<le> 2 ^ 53 / 2 ^ 44"
      proof -
        from k have "(2::rat) ^ 44 \<le> 2 ^ k" by (intro power_increasing) simp_all
        then show ?thesis by (intro divide_left_mono) simp_all
      qed
      finally have "q < 512" by simp
      with q(1) show False by simp
    qed
  qed
  with in64 show ?thesis unfolding nearest64_def by blast
qed

lemma number_099_binary64: "4458563631096791 / 2 ^ 52 \<in> binary64"
proof -
  have "(4458563631096791 / 2 ^ 52 :: rat) = of_int 4458563631096791 * pow2 (- 52)"
    by (simp add: pow2_def)
  moreover have "\<bar>4458563631096791 :: int\<bar> < 2 ^ 53 \<and> - 1074 \<le> (- 52 :: int) \<and> (- 52 :: int) \<le> 971"
    by simp
  ultimately show ?thesis unfolding binary64_def by blast
qed

theorem generateOrderNo_format_witness:
  "validDate \<lparr>fullYear = 2026, month = 1, dayOfMonth = 19, hours = 23, minutes = 15, seconds = 5\<rparr> \<and>
   4458563631096791 / 2 ^ 52 \<in> binary64 \<and>
   nearest64 (4458563631096791 / 2 ^ 52 * 900) 891 \<and>
   generateOrderNo (\<lambda>x. Num 891)
     \<lparr>fullYear = 2026, month = 1, dayOfMonth = 19, hours = 23, minutes = 15, seconds = 5\<rparr>
     (4458563631096791 / 2 ^ 52) = str ''20260219231505991'' \<and>
   decimalValue (drop 14 (generateOrderNo (\<lambda>x. Num 891)
     \<lparr>fullYear = 2026, month = 1, dayOfMonth = 19, hours = 23, minutes = 15, seconds = 5\<rparr>
     (4458563631096791 / 2 ^ 52))) = 991"
proof -
  let ?d = "\<lparr>fullYear = 2026, month = 1, dayOfMonth = 19, hours = 23, minutes = 15, seconds = 5\<rparr>"
  let ?r = "4458563631096791 / 2 ^ 52 :: rat"
  have v: "validDate ?d" by (simp add: validDate_def)
  have b: "0 \<le> ?r" "?r < 1" by simp_all
  have t: "(\<lambda>x. Num 891) (?r * 900) = Num 891" by simp
  have f: "\<lfloor>891 :: rat\<rfloor> = 891" by simp
  from generateOrderNo_format [OF v _ _ number_099_binary64 b t nearest64_891]
  have "generateOrderNo (\<lambda>x. Num 891) ?d ?r = str ''20260219231505991'' \<and>
    decimalValue (drop 14 (generateOrderNo (\<lambda>x. Num 891) ?d ?r)) = 991"
    by (simp add: f fixedWidth_def digitChar_def upt_rec decimalValue_def str_def unat_chr)
  with v number_099_binary64 nearest64_891 show ?thesis by blast
qed

section \<open>Properties of the webhook\<close>

lemma verifySign_signed: "verifySign md5 (signed md5 params key) key"
proof -
  have "generateSign md5 (signed md5 params key) key = generateSign md5 params key"
    by (simp add: generateSign_def buildSignString_def signed_def
        filter_signable_setp_sign filter_signable_setp_sign_type)
  moreover have "getp (signed md5 params key) (str ''sign'') = JStr (generateSign md5 params key)"
    by (simp add: signed_def getp_setp_other getp_setp)
  ultimately show ?thesis
    using generateSign_nonempty [of md5 params key] by (simp add: verifySign_def falsy_def)
qed

lemma getp_signed: "k \<noteq> (str ''sign'') \<Longrightarrow> k \<noteq> (str ''sign_type'') \<Longrightarrow> getp (signed md5 params key) k = getp params k"
  by (simp add: signed_def getp_setp_other)

lemma parseFloat_050: "parseFloat Num (JStr (str ''0.50'')) = Num (1 / 2)"
  by (simp add: parseFloat_def strUnsignedDecimalLiteral_def isDigit_def isWhiteSpace_def
      decimalValue_def exponentPart_def pow10_def Let_def str_def chr_def)

lemma parseFloat_05: "parseFloat Num (JStr (str ''0.5'')) = Num (1 / 2)"
  by (simp add: parseFloat_def strUnsignedDecimalLiteral_def isDigit_def isWhiteSpace_def
      decimalValue_def exponentPart_def pow10_def Let_def str_def chr_def)

lemma parseFloat_050abc: "parseFloat Num (JStr (str ''0.50abc'')) = Num (1 / 2)"
  by (simp add: parseFloat_def strUnsignedDecimalLiteral_def isDigit_def isWhiteSpace_def
      decimalValue_def exponentPart_def pow10_def Let_def str_def chr_def)

lemma parseFloat_500: "parseFloat Num (JStr (str ''5.00'')) = Num 5"
  by (simp add: parseFloat_def strUnsignedDecimalLiteral_def isDigit_def isWhiteSpace_def
      decimalValue_def exponentPart_def pow10_def Let_def str_def chr_def)

lemma numeric_ORDER_AMOUNT: "numeric_10_2 (parseFloat Num (JStr ORDER_AMOUNT)) = Some (1 / 2)"
proof -
  have "\<lfloor>101 / 2 :: rat\<rfloor> = 50" by (rule floor_unique) simp_all
  then show ?thesis by (simp add: ORDER_AMOUNT_def parseFloat_050 numeric_10_2_def Let_def)
qed

lemma select_exOrder:
  "selectSingle False [exOrder st] (str ''20260219120000123'') = Some (exOrder st)"
  by (simp add: selectSingle_def exOrder_def)

lemma webhookCheck_continues:
  assumes "\<not> falsy (ZPAY_KEY e)" and "verifySign md5 params (valText (ZPAY_KEY e))"
    and "getp params (str ''trade_status'') = JStr (str ''TRADE_SUCCESS'')" and "supabaseConfigured e"
    and "selectSingle (queryError be) db (valText (getp params (str ''out_trade_no''))) = Some order"
    and "status order = Pending"
  shows "webhookCheck md5 toNumber e be params db =
           (if strictNe (parseFloat toNumber (getp params (str ''money''))) (toNumber (amount order))
            then Some (Send 400 ''amount mismatch'') else None)"
  using assms by (simp add: webhookCheck_def)

lemma webhookCheck_duplicate:
  assumes "\<not> falsy (ZPAY_KEY e)" and "verifySign md5 params (valText (ZPAY_KEY e))"
    and "getp params (str ''trade_status'') = JStr (str ''TRADE_SUCCESS'')" and "supabaseConfigured e"
    and "selectSingle (queryError be) db (valText (getp params (str ''out_trade_no''))) = Some order"
    and "status order \<noteq> Pending"
  shows "webhookCheck md5 toNumber e be params db = Some (Send 200 ''success'')"
  using assms by (simp add: webhookCheck_def)

lemma ex_facts:
  "\<not> falsy (ZPAY_KEY exEnv)" "valText (ZPAY_KEY exEnv) = (str ''secret'')" "supabaseConfigured exEnv"
  "PAYMENT_REQUIRED exEnv" "zpayConfigured exEnv"
  "queryError exBackend = False" "updateError exBackend = False" "dbError exBackend = False"
  by (simp_all add: exEnv_def exBackend_def falsy_def supabaseConfigured_def PAYMENT_REQUIRED_def
      zpayConfigured_def)

lemma exCallback_fields:
  "verifySign exDigest (exCallback m) (str ''secret'')"
  "getp (exCallback m) (str ''trade_status'') = JStr (str ''TRADE_SUCCESS'')"
  "getp (exCallback m) (str ''out_trade_no'') = JStr (str ''20260219120000123'')"
  "getp (exCallback m) (str ''money'') = JStr m"
  "getp (exCallback m) (str ''trade_no'') = JStr (str ''T77'')"
  "getp (exCallback m) (str ''type'') = JStr (str ''wxpay'')"
  by (simp_all add: exCallback_def verifySign_signed getp_signed) (simp_all add: getp_def)

text \<open>
  Claim C4. A notification whose signature verifies, whose status is \<open>TRADE_SUCCESS\<close> and
  whose order is found with a status other than \<open>pending\<close> is answered \<open>success\<close> before
  the amount is looked at, and the table stays as it is: the handler returns before its
  update.
\<close>

theorem webhook_duplicate_acknowledged:
  assumes "\<not> falsy (ZPAY_KEY e)" and "verifySign md5 params (valText (ZPAY_KEY e))"
    and "getp params (str ''trade_status'') = JStr (str ''TRADE_SUCCESS'')" and "supabaseConfigured e"
    and "selectSingle (queryError be) db (valText (getp params (str ''out_trade_no''))) = Some order"
    and "status order \<noteq> Pending"
  shows "webhookCheck md5 toNumber e be params db = Some (Send 200 ''success'') \<and>
         webhook md5 toNumber e be params db = (Send 200 ''success'', db)"
  using webhookCheck_duplicate [OF assms] by (simp add: webhook_def)

theorem webhook_duplicate_acknowledged_witness:
  "status (exOrder Paid) \<noteq> Pending \<and>
   strictNe (parseFloat Num (getp (exCallback (str ''5.00'')) (str ''money''))) (Num (amount (exOrder Paid))) \<and>
   webhook exDigest Num exEnv exBackend (exCallback (str ''5.00'')) [exOrder Paid]
     = (Send 200 ''success'', [exOrder Paid])"
proof -
  have s: "status (exOrder Paid) \<noteq> Pending" by (simp add: exOrder_def)
  have "strictNe (parseFloat Num (getp (exCallback (str ''5.00'')) (str ''money''))) (Num (amount (exOrder Paid)))"
    by (simp add: exCallback_fields parseFloat_500 strictNe_def exOrder_def)
  moreover have "webhook exDigest Num exEnv exBackend (exCallback (str ''5.00'')) [exOrder Paid]
     = (Send 200 ''success'', [exOrder Paid])"
    using webhook_duplicate_acknowledged [of exEnv exDigest "exCallback (str ''5.00'')" exBackend
        "[exOrder Paid]" "exOrder Paid" Num] s
    by (simp add: ex_facts exCallback_fields select_exOrder)
  ultimately show ?thesis using s by simp
qed

text \<open>
  Claim C5, as amended. For a notification that reaches the amount check (signature
  valid, status \<open>TRADE_SUCCESS\<close>, order found and \<open>pending\<close>), the reported and the stored
  amount are compared as numbers: \<open>parseFloat\<close> of each, with \<open>!==\<close> and no tolerance,
  \<open>NaN\<close> never matching. The handler answers \<open>amount mismatch\<close> and leaves the table as it
  is exactly when the numbers differ; otherwise it goes on to the update.
\<close>

theorem webhook_amount_check:
  assumes "\<not> falsy (ZPAY_KEY e)" and "verifySign md5 params (valText (ZPAY_KEY e))"
    and "getp params (str ''trade_status'') = JStr (str ''TRADE_SUCCESS'')" and "supabaseConfigured e"
    and "selectSingle (queryError be) db (valText (getp params (str ''out_trade_no''))) = Some order"
    and "status order = Pending"
  shows "(webhook md5 toNumber e be params db = (Send 400 ''amount mismatch'', db)) =
           strictNe (parseFloat toNumber (getp params (str ''money''))) (toNumber (amount order)) \<and>
         (webhookCheck md5 toNumber e be params db = None) =
           (\<not> strictNe (parseFloat toNumber (getp params (str ''money''))) (toNumber (amount order)))"
  using webhookCheck_continues [OF assms, of toNumber]
  by (auto simp: webhook_def webhookWrite_def split: option.splits)

theorem webhook_amount_check_witness:
  "status (exOrder Pending) = Pending \<and> amount (exOrder Pending) = 1 / 2 \<and>
   parseFloat Num (getp (exCallback (str ''5.00'')) (str ''money'')) = Num 5 \<and>
   webhook exDigest Num exEnv exBackend (exCallback (str ''5.00'')) [exOrder Pending]
     = (Send 400 ''amount mismatch'', [exOrder Pending])"
proof -
  have s: "status (exOrder Pending) = Pending" "amount (exOrder Pending) = 1 / 2"
    by (simp_all add: exOrder_def)
  have p: "parseFloat Num (getp (exCallback (str ''5.00'')) (str ''money'')) = Num 5"
    by (simp add: exCallback_fields parseFloat_500)
  from webhook_amount_check [of exEnv exDigest "exCallback (str ''5.00'')" exBackend
        "[exOrder Pending]" "exOrder Pending" Num] s p
  show ?thesis
    by (simp add: ex_facts exCallback_fields select_exOrder strictNe_def)
qed

lemma parseFloat_nbsp: "parseFloat Num (JStr (0x00A0 # str ''0.5'')) = Num (1 / 2)"
  by (simp add: parseFloat_def strUnsignedDecimalLiteral_def isDigit_def isWhiteSpace_def
      decimalValue_def exponentPart_def pow10_def Let_def str_def chr_def)

lemma exCallback_accepted:
  assumes "parseFloat Num (JStr m) = Num (1 / 2)"
  shows "webhook exDigest Num exEnv exBackend (exCallback m) [exOrder Pending]
     = (Send 200 ''success'',
        [(exOrder Paid)\<lparr>trade_no := Some (str ''T77''),
           trade_status := Some (str ''TRADE_SUCCESS''), pay_type := Some (str ''wxpay''),
           updated_at := 7\<rparr>])"
proof -
  have "webhookCheck exDigest Num exEnv exBackend (exCallback m) [exOrder Pending] = None"
    by (simp add: webhookCheck_def ex_facts exCallback_fields select_exOrder assms strictNe_def)
      (simp add: exOrder_def)
  then show ?thesis
    by (simp add: webhook_def webhookWrite_def updateWhere_def ex_facts exCallback_fields
        markPaid_def column_def)
      (simp add: exOrder_def exBackend_def)
qed

text \<open>
  Claim C5, as stated, fails: the comparison is not byte for byte. The order holds the
  amount written from \<open>"0.50"\<close>; signed notifications reporting \<open>"0.5"\<close>, \<open>"0.50abc"\<close> and
  \<open>"0.5"\<close> after a no-break space pass the amount check and the order becomes \<open>paid\<close>.
\<close>

theorem webhook_amount_not_bytewise:
  "str ''0.5'' \<noteq> ORDER_AMOUNT \<and>
   numeric_10_2 (parseFloat Num (JStr ORDER_AMOUNT)) = Some (amount (exOrder Pending)) \<and>
   getp (exCallback (str ''0.5'')) (str ''money'') = JStr (str ''0.5'') \<and>
   webhook exDigest Num exEnv exBackend (exCallback (str ''0.5'')) [exOrder Pending]
     = (Send 200 ''success'',
        [(exOrder Paid)\<lparr>trade_no := Some (str ''T77''),
           trade_status := Some (str ''TRADE_SUCCESS''), pay_type := Some (str ''wxpay''),
           updated_at := 7\<rparr>]) \<and>
   webhook exDigest Num exEnv exBackend (exCallback (str ''0.50abc'')) [exOrder Pending]
     = (Send 200 ''success'',
        [(exOrder Paid)\<lparr>trade_no := Some (str ''T77''),
           trade_status := Some (str ''TRADE_SUCCESS''), pay_type := Some (str ''wxpay''),
           updated_at := 7\<rparr>]) \<and>
   webhook exDigest Num exEnv exBackend (exCallback (0x00A0 # str ''0.5'')) [exOrder Pending]
     = (Send 200 ''success'',
        [(exOrder Paid)\<lparr>trade_no := Some (str ''T77''),
           trade_status := Some (str ''TRADE_SUCCESS''), pay_type := Some (str ''wxpay''),
           updated_at := 7\<rparr>])"
proof -
  have "str ''0.5'' \<noteq> ORDER_AMOUNT" by (simp add: ORDER_AMOUNT_def)
  moreover have "numeric_10_2 (parseFloat Num (JStr ORDER_AMOUNT)) = Some (amount (exOrder Pending))"
    by (simp add: numeric_ORDER_AMOUNT exOrder_def)
  moreover have "getp (exCallback (str ''0.5'')) (str ''money'') = JStr (str ''0.5'')"
    by (simp add: exCallback_fields)
  moreover note exCallback_accepted [OF parseFloat_05] exCallback_accepted [OF parseFloat_050abc]
    exCallback_accepted [OF parseFloat_nbsp]
  ultimately show ?thesis by (intro conjI)
qed

lemma webhookWrite_response:
  "fst (webhookWrite be params db) = (if updateError be then Send 500 ''error'' else Send 200 ''success'')"
  by (simp add: webhookWrite_def updateWhere_def)

text \<open>
  Claim C3, as amended. The webhook answers something other than \<open>success\<close> exactly when
  the key is not configured, the signature does not verify, or, for a \<open>TRADE_SUCCESS\<close>
  notification, the storage client is not configured, the lookup fails or finds no single
  order, or the order is \<open>pending\<close> and either the amounts differ or the update reports a
  storage error. The update on its own, on any table, is answered \<open>success\<close> unless storage
  reports an error: a conditional transition that does not apply is still acknowledged.
\<close>

theorem webhook_non_success_cases:
  "(fst (webhook md5 toNumber e be params db) \<noteq> Send 200 ''success'') =
     (falsy (ZPAY_KEY e) \<or> \<not> verifySign md5 params (valText (ZPAY_KEY e)) \<or>
      (getp params (str ''trade_status'') = JStr (str ''TRADE_SUCCESS'') \<and>
        (\<not> supabaseConfigured e \<or>
         (case selectSingle (queryError be) db (valText (getp params (str ''out_trade_no''))) of
            None \<Rightarrow> True
          | Some order \<Rightarrow>
              status order = Pending \<and>
              (strictNe (parseFloat toNumber (getp params (str ''money''))) (toNumber (amount order)) \<or>
               updateError be))))) \<and>
   (fst (webhookWrite be params db') \<noteq> Send 200 ''success'') = updateError be"
  by (simp add: webhook_def webhookCheck_def webhookWrite_response split: option.splits)

text \<open>
  Claim C3, as stated, fails: a notification with a valid signature and the right amount,
  for an order that exists and is \<open>pending\<close>, is answered \<open>error\<close> (status 500) when the
  update reports a storage error.
\<close>

theorem webhook_storage_error_not_acknowledged:
  "verifySign exDigest (exCallback (str ''0.50'')) (valText (ZPAY_KEY exEnv)) \<and>
   selectSingle False [exOrder Pending] (valText (getp (exCallback (str ''0.50'')) (str ''out_trade_no'')))
     = Some (exOrder Pending) \<and>
   \<not> strictNe (parseFloat Num (getp (exCallback (str ''0.50'')) (str ''money'')))
        (Num (amount (exOrder Pending))) \<and>
   webhook exDigest Num exEnv (exBackend\<lparr>updateError := True\<rparr>) (exCallback (str ''0.50''))
     [exOrder Pending] = (Send 500 ''error'', [exOrder Pending])"
proof -
  have a: "\<not> strictNe (parseFloat Num (getp (exCallback (str ''0.50'')) (str ''money'')))
        (Num (amount (exOrder Pending)))"
    by (simp add: exCallback_fields parseFloat_050 strictNe_def exOrder_def)
  have "webhookCheck exDigest Num exEnv (exBackend\<lparr>updateError := True\<rparr>) (exCallback (str ''0.50''))
     [exOrder Pending] = None"
    using a by (simp add: webhookCheck_def ex_facts exCallback_fields select_exOrder)
      (simp add: exOrder_def)
  then have "webhook exDigest Num exEnv (exBackend\<lparr>updateError := True\<rparr>) (exCallback (str ''0.50''))
     [exOrder Pending] = (Send 500 ''error'', [exOrder Pending])"
    by (simp add: webhook_def webhookWrite_def updateWhere_def)
  with a show ?thesis by (simp add: ex_facts exCallback_fields select_exOrder)
qed

theorem webhook_non_success_cases_witness:
  "\<not> falsy (ZPAY_KEY exEnv) \<and> verifySign exDigest (exCallback (str ''0.50'')) (valText (ZPAY_KEY exEnv)) \<and>
   supabaseConfigured exEnv \<and> status (exOrder Analyzed) \<noteq> Pending \<and>
   fst (webhook exDigest Num exEnv exBackend (exCallback (str ''0.50'')) [exOrder Analyzed])
     = Send 200 ''success'' \<and>
   fst (webhookWrite exBackend (exCallback (str ''0.50'')) [exOrder Analyzed]) = Send 200 ''success''"
  using webhook_non_success_cases [of exDigest Num exEnv exBackend "exCallback (str ''0.50'')"
      "[exOrder Analyzed]" "[exOrder Analyzed]"]
  by (simp add: ex_facts exCallback_fields select_exOrder) (simp add: exOrder_def)

section \<open>Properties of the payment check\<close>

text \<open>
  Claim C2 at two overlapping requests for the same paid order. Both pass the status check
  on the table that holds the order as \<open>paid\<close>. The update of the first marks the order
  \<open>analyzed\<close>. The update of the second then matches no row, reports no error, and the
  second request goes on to the analysis all the same, where the claim has it rejected as
  already consumed.
\<close>

theorem analyze_lost_race_runs_analysis:
  "analyzeCheck exEnv exBackend exBody [exOrder Paid] = Consume \<and>
   analyzeWrite exBackend exBody [exOrder Paid] = (RunAnalysis, [(exOrder Analyzed)\<lparr>updated_at := 7\<rparr>]) \<and>
   analyzeWrite exBackend exBody [(exOrder Analyzed)\<lparr>updated_at := 7\<rparr>]
     = (RunAnalysis, [(exOrder Analyzed)\<lparr>updated_at := 7\<rparr>])"
proof -
  have b: "getp exBody (str ''out_trade_no'') = JStr (str ''20260219120000123'')"
    "getp exBody (str ''image'') = JStr (str ''data:image/jpeg;base64,AAAA'')"
    by (simp_all add: exBody_def getp_def)
  have "analyzeCheck exEnv exBackend exBody [exOrder Paid] = Consume"
    by (simp add: analyzeCheck_def b ex_facts select_exOrder falsy_def) (simp add: exOrder_def)
  moreover have "analyzeWrite exBackend exBody [exOrder Paid]
      = (RunAnalysis, [(exOrder Analyzed)\<lparr>updated_at := 7\<rparr>])"
    by (simp add: analyzeWrite_def updateWhere_def b ex_facts markAnalyzed_def)
      (simp add: exOrder_def exBackend_def)
  moreover have "analyzeWrite exBackend exBody [(exOrder Analyzed)\<lparr>updated_at := 7\<rparr>]
     = (RunAnalysis, [(exOrder Analyzed)\<lparr>updated_at := 7\<rparr>])"
    by (simp add: analyzeWrite_def updateWhere_def b ex_facts markAnalyzed_def)
      (simp add: exOrder_def)
  ultimately show ?thesis by simp
qed

lemma analyze_sequential:
  assumes "\<not> falsy (getp body (str ''image''))" and "PAYMENT_REQUIRED e"
    and "\<not> falsy (getp body (str ''out_trade_no''))" and "supabaseConfigured e"
  shows "analyze e be body db =
     (case selectSingle (queryError be) db (valText (getp body (str ''out_trade_no''))) of
        None \<Rightarrow> (Respond (JsonFail 404 OrderNotFound), db)
      | Some order \<Rightarrow>
          if status order = Analyzed then (Respond (JsonFail 409 OrderUsed), db)
          else if status order \<noteq> Paid then (Respond (JsonFail 402 OrderUnpaid), db)
          else analyzeWrite be body db)"
  using assms by (simp add: analyze_def analyzeCheck_def split: option.splits)

section \<open>Properties of the checkout\<close>

text \<open>
  Claim C8, as amended. When the insert of a valid checkout request fails, because the
  generated order number is already in the table or because storage reports an error, the
  handler answers 500 at once and leaves the table as it is. It generates one order number
  per request and never a second one: what further calls of the generator would give has
  no influence on the result.
\<close>

theorem checkout_insert_failure_not_retried:
  assumes "\<not> falsy (getp body (str ''uid''))"
    and "getp body (str ''pay_type'') \<in> {JUndefined, JStr (str ''alipay''), JStr (str ''wxpay'')}"
    and "zpayConfigured e" and "supabaseConfigured e"
    and "generateOrderNo toNumber (fst (gen 0)) (snd (gen 0)) \<in> set (map out_trade_no db) \<or>
         dbError be"
  shows "checkout md5 toNumber e be gen body db = (JsonFail 500 CreateOrderFailed, db) \<and>
         checkout md5 toNumber e be (\<lambda>k. gen 0) body db = checkout md5 toNumber e be gen body db"
proof
  show "checkout md5 toNumber e be gen body db = (JsonFail 500 CreateOrderFailed, db)"
    using assms by (auto simp: checkout_def insertRow_def Let_def split: option.splits)
  show "checkout md5 toNumber e be (\<lambda>k. gen 0) body db = checkout md5 toNumber e be gen body db"
    by (simp add: checkout_def)
qed

lemma exGen_numbers:
  "generateOrderNo Num (fst (exGen 0)) (snd (exGen 0)) = (str ''20260219120000123'')"
  "generateOrderNo Num (fst (exGen 1)) (snd (exGen 1)) = (str ''20260219120000124'')"
proof -
  have "\<lfloor>23 / 900 * 900 :: rat\<rfloor> = 23" "\<lfloor>24 / 900 * 900 :: rat\<rfloor> = 24" by simp_all
  then show "generateOrderNo Num (fst (exGen 0)) (snd (exGen 0)) = (str ''20260219120000123'')"
    "generateOrderNo Num (fst (exGen 1)) (snd (exGen 1)) = (str ''20260219120000124'')"
    by (simp_all add: exGen_def exDate_def generateOrderNo_def p2_def padStart_def numText_def
        natText.simps digitChar_def str_def)
qed

text \<open>
  Claim C8, as stated, fails: the first order number generated collides with a stored
  order, a second call of the generator would give a fresh one, and the request fails with
  500 without a retry.
\<close>

theorem checkout_collision_fails_at_once:
  "generateOrderNo Num (fst (exGen 0)) (snd (exGen 0)) = out_trade_no (exOrder Pending) \<and>
   generateOrderNo Num (fst (exGen 1)) (snd (exGen 1)) \<noteq> out_trade_no (exOrder Pending) \<and>
   checkout exDigest Num exEnv exBackend exGen exCheckoutBody [exOrder Pending]
     = (JsonFail 500 CreateOrderFailed, [exOrder Pending])"
proof -
  have o: "out_trade_no (exOrder Pending) = (str ''20260219120000123'')" by (simp add: exOrder_def)
  have u: "getp exCheckoutBody (str ''uid'') = JStr (str ''u2'')" "getp exCheckoutBody (str ''pay_type'') = JUndefined"
    by (simp_all add: exCheckoutBody_def getp_def)
  have "checkout exDigest Num exEnv exBackend exGen exCheckoutBody [exOrder Pending]
     = (JsonFail 500 CreateOrderFailed, [exOrder Pending])"
    by (simp add: checkout_def u falsy_def ex_facts exGen_numbers numeric_ORDER_AMOUNT
        insertRow_def o)
  moreover have "generateOrderNo Num (fst (exGen 1)) (snd (exGen 1)) \<noteq> out_trade_no (exOrder Pending)"
    by (simp only: exGen_numbers o) simp
  moreover have "generateOrderNo Num (fst (exGen 0)) (snd (exGen 0)) = out_trade_no (exOrder Pending)"
    by (simp only: exGen_numbers o)
  ultimately show ?thesis by (intro conjI)
qed

theorem checkout_insert_failure_not_retried_witness:
  "\<not> falsy (getp exCheckoutBody (str ''uid'')) \<and> zpayConfigured exEnv \<and> supabaseConfigured exEnv \<and>
   generateOrderNo Num (fst (exGen 0)) (snd (exGen 0)) \<in> set (map out_trade_no [exOrder Paid]) \<and>
   checkout exDigest Num exEnv exBackend exGen exCheckoutBody [exOrder Paid]
     = (JsonFail 500 CreateOrderFailed, [exOrder Paid])"
proof -
  have o: "out_trade_no (exOrder Paid) = (str ''20260219120000123'')" by (simp add: exOrder_def)
  have u: "getp exCheckoutBody (str ''uid'') = JStr (str ''u2'')" "getp exCheckoutBody (str ''pay_type'') = JUndefined"
    by (simp_all add: exCheckoutBody_def getp_def)
  from checkout_insert_failure_not_retried [where body = exCheckoutBody and e = exEnv
      and gen = exGen and db = "[exOrder Paid]" and be = exBackend and ?md5.0 = exDigest
      and toNumber = Num]
  show ?thesis by (simp add: u falsy_def ex_facts exGen_numbers o)
qed

section \<open>The status only moves forward\<close>

lemma sameOrderForward_refl: "sameOrderForward r r"
  by (simp add: sameOrderForward_def forwardStep_def)

lemma list_all2_sameOrderForward_refl: "list_all2 sameOrderForward db db"
  by (simp add: list_all2_same sameOrderForward_refl)

lemma updateWhere_forward:
  assumes "updateWhere failed db otn st f = Some db'"
    and "\<And>r. status r = st \<Longrightarrow> sameOrderForward r (f r)"
  shows "list_all2 sameOrderForward db db'"
proof -
  from assms(1) have "db' = map (\<lambda>r. if out_trade_no r = otn \<and> status r = st then f r else r) db"
    by (simp add: updateWhere_def split: if_splits)
  then show ?thesis
    by (simp add: list_all2_map2 list_all2_same sameOrderForward_refl assms(2))
qed

lemma markPaid_forward: "status r = Pending \<Longrightarrow> sameOrderForward r (markPaid be params r)"
  by (simp add: sameOrderForward_def forwardStep_def markPaid_def)

lemma markAnalyzed_forward: "status r = Paid \<Longrightarrow> sameOrderForward r (markAnalyzed be r)"
  by (simp add: sameOrderForward_def forwardStep_def markAnalyzed_def)

lemma webhookWrite_forward: "list_all2 sameOrderForward db (snd (webhookWrite be params db))"
  by (auto simp: webhookWrite_def list_all2_sameOrderForward_refl split: option.splits
      intro: updateWhere_forward markPaid_forward)

lemma analyzeWrite_forward: "list_all2 sameOrderForward db (snd (analyzeWrite be body db))"
  by (auto simp: analyzeWrite_def list_all2_sameOrderForward_refl split: option.splits
      intro: updateWhere_forward markAnalyzed_forward)

lemma webhook_forward: "list_all2 sameOrderForward db (snd (webhook md5 toNumber e be params db))"
  by (simp add: webhook_def webhookWrite_forward list_all2_sameOrderForward_refl
      split: option.splits)

lemma analyze_forward: "list_all2 sameOrderForward db (snd (analyze e be body db))"
  by (simp add: analyze_def analyzeWrite_forward list_all2_sameOrderForward_refl
      split: gate.splits)

lemma exec_forward: "list_all2 sameOrderForward db (exec md5 toNumber x db)"
  by (cases x) (simp_all add: webhook_forward analyze_forward webhookWrite_forward
      analyzeWrite_forward)

lemma trace_Suc:
  "j < length ops \<Longrightarrow>
   trace md5 toNumber ops db ! Suc j = exec md5 toNumber (ops ! j) (trace md5 toNumber ops db ! j)"
proof (induction ops arbitrary: db j)
  case Nil
  then show ?case by simp
next
  case (Cons x xs)
  show ?case
  proof (cases j)
    case 0
    then show ?thesis by (cases xs) simp_all
  next
    case (Suc i)
    with Cons.prems have "i < length xs" by simp
    from Cons.IH [OF this] Suc show ?thesis by simp
  qed
qed

lemma trace_step_forward:
  assumes "j < length ops"
  shows "list_all2 sameOrderForward (trace md5 toNumber ops db ! j) (trace md5 toNumber ops db ! Suc j)"
  by (simp only: trace_Suc [OF assms] exec_forward)

lemma trace_0: "trace md5 toNumber ops db ! 0 = db"
  by (cases ops) simp_all

lemma trace_rows:
  "j \<le> length ops \<Longrightarrow> length (trace md5 toNumber ops db ! j) = length db"
proof (induction j)
  case 0
  show ?case by (simp add: trace_0)
next
  case (Suc j)
  then have "j < length ops" by simp
  from trace_step_forward [OF this, of md5 toNumber db] Suc show ?case
    by (simp add: list_all2_lengthD)
qed

lemma trace_row_step:
  assumes "j < length ops" "i < length db"
  shows "forwardStep (status (trace md5 toNumber ops db ! j ! i))
           (status (trace md5 toNumber ops db ! Suc j ! i))"
proof -
  from assms have "i < length (trace md5 toNumber ops db ! j)" by (simp add: trace_rows)
  with trace_step_forward [OF assms(1), of md5 toNumber db]
  have "sameOrderForward (trace md5 toNumber ops db ! j ! i) (trace md5 toNumber ops db ! Suc j ! i)"
    by (rule list_all2_nthD)
  then show ?thesis by (simp add: sameOrderForward_def)
qed

lemma forwardStep_rank: "forwardStep s s' \<Longrightarrow> rank s \<le> rank s'"
  by (auto simp: forwardStep_def)

lemma trace_rank_mono:
  assumes "j \<le> k" "k \<le> length ops" "i < length db"
  shows "rank (status (trace md5 toNumber ops db ! j ! i))
           \<le> rank (status (trace md5 toNumber ops db ! k ! i))"
  using assms(1,2)
proof (induction k rule: dec_induct)
  case base
  show ?case by simp
next
  case (step n)
  then have "n < length ops" by simp
  from trace_row_step [OF this assms(3), of md5 toNumber] have
    "rank (status (trace md5 toNumber ops db ! n ! i))
       \<le> rank (status (trace md5 toNumber ops db ! Suc n ! i))"
    by (rule forwardStep_rank)
  with step show ?case by simp
qed

lemma trace_paid_between:
  assumes "j \<le> k" "k \<le> length ops" "i < length db"
    and "status (trace md5 toNumber ops db ! j ! i) = Pending"
    and "status (trace md5 toNumber ops db ! k ! i) = Analyzed"
  shows "\<exists>m. j < m \<and> m < k \<and> status (trace md5 toNumber ops db ! m ! i) = Paid"
proof -
  let ?st = "\<lambda>n. status (trace md5 toNumber ops db ! n ! i)"
  define m where "m = (LEAST n. j \<le> n \<and> ?st n \<noteq> Pending)"
  from assms(1,5) have ex: "j \<le> k \<and> ?st k \<noteq> Pending" by simp
  then have m: "j \<le> m \<and> ?st m \<noteq> Pending" unfolding m_def by (rule LeastI)
  from ex have "m \<le> k" unfolding m_def by (rule Least_le)
  from m assms(4) have "j \<noteq> m" by auto
  with m have "j < m" by simp
  then obtain n where n: "m = Suc n" by (cases m) auto
  with \<open>j < m\<close> have "j \<le> n" by simp
  have "?st n = Pending"
  proof (rule ccontr)
    assume "?st n \<noteq> Pending"
    with \<open>j \<le> n\<close> have "m \<le> n" unfolding m_def by (intro Least_le) simp
    with n show False by simp
  qed
  moreover from n \<open>m \<le> k\<close> assms(2) have "n < length ops" by simp
  then have "forwardStep (?st n) (?st (Suc n))" using assms(3) by (rule trace_row_step)
  ultimately have "?st m = Paid" using m n by (auto simp: forwardStep_def)
  moreover from this assms(5) have "m \<noteq> k" by auto
  ultimately show ?thesis using \<open>j < m\<close> \<open>m \<le> k\<close> by (intro exI [of _ m]) simp
qed

text \<open>
  Claim C1. Along every sequence of webhook callbacks and payment checks (run as a whole,
  or their updates alone, as overlapping requests apply them), every row keeps its order
  number and its status stays or moves one state forward, \<open>pending\<close> to \<open>paid\<close> or
  \<open>paid\<close> to \<open>analyzed\<close>, at each step; over any number of steps the status never moves
  backward; and an order seen \<open>pending\<close> and later \<open>analyzed\<close> was \<open>paid\<close> at a step in
  between.
\<close>

theorem status_moves_forward_only:
  "(\<forall>j<length ops.
      list_all2 sameOrderForward
        (trace md5 toNumber ops db ! j) (trace md5 toNumber ops db ! Suc j)) \<and>
   (\<forall>j k i. j \<le> k \<and> k \<le> length ops \<and> i < length db \<longrightarrow>
      rank (status (trace md5 toNumber ops db ! j ! i))
        \<le> rank (status (trace md5 toNumber ops db ! k ! i))) \<and>
   (\<forall>j k i. j \<le> k \<and> k \<le> length ops \<and> i < length db \<and>
      status (trace md5 toNumber ops db ! j ! i) = Pending \<and>
      status (trace md5 toNumber ops db ! k ! i) = Analyzed \<longrightarrow>
      (\<exists>m. j < m \<and> m < k \<and> status (trace md5 toNumber ops db ! m ! i) = Paid))"
  by (intro conjI allI impI) (auto intro: trace_step_forward trace_rank_mono trace_paid_between)

lemma exOps_trace:
  "map (map status) (trace exDigest Num exOps [exOrder Pending])
     = [[Pending], [Paid], [Analyzed], [Analyzed]]"
proof -
  let ?paid = "(exOrder Paid)\<lparr>trade_no := Some (str ''T77''), trade_status := Some (str ''TRADE_SUCCESS''),
           pay_type := Some (str ''wxpay''), updated_at := 7\<rparr>"
  let ?done = "?paid\<lparr>status := Analyzed\<rparr>"
  have sel: "selectSingle False [r] (str ''20260219120000123'') = Some r"
    if "out_trade_no r = (str ''20260219120000123'')" for r
    using that by (simp add: selectSingle_def)
  have b: "getp exBody (str ''out_trade_no'') = JStr (str ''20260219120000123'')"
    "getp exBody (str ''image'') = JStr (str ''data:image/jpeg;base64,AAAA'')"
    by (simp_all add: exBody_def getp_def)
  have o: "out_trade_no ?paid = (str ''20260219120000123'')" "out_trade_no ?done = (str ''20260219120000123'')"
    "out_trade_no (exOrder Pending) = (str ''20260219120000123'')"
    by (simp_all add: exOrder_def)
  have 1: "webhook exDigest Num exEnv exBackend (exCallback (str ''0.50'')) [exOrder Pending]
      = (Send 200 ''success'', [?paid])"
    by (simp add: webhook_def webhookCheck_def webhookWrite_def updateWhere_def ex_facts
        exCallback_fields sel o parseFloat_050 strictNe_def markPaid_def column_def)
      (simp add: exOrder_def exBackend_def)
  have 2: "analyze exEnv exBackend exBody [?paid] = (RunAnalysis, [?done])"
    by (simp add: analyze_def analyzeCheck_def analyzeWrite_def updateWhere_def ex_facts b
        sel o falsy_def markAnalyzed_def)
      (simp add: exOrder_def exBackend_def)
  have 3: "webhook exDigest Num exEnv exBackend (exCallback (str ''0.50'')) [?done]
      = (Send 200 ''success'', [?done])"
    by (simp add: webhook_def webhookCheck_def ex_facts exCallback_fields sel o)
  show ?thesis by (simp add: exOps_def 1 2 3) (simp add: exOrder_def)
qed

text \<open>
  The specification's scenario: a notification pays the order, the payment check consumes
  it, a second notification changes nothing.
\<close>

theorem status_moves_forward_only_witness:
  "map (map status) (trace exDigest Num exOps [exOrder Pending])
     = [[Pending], [Paid], [Analyzed], [Analyzed]] \<and>
   (\<exists>m. 0 < m \<and> m < 2 \<and> status (trace exDigest Num exOps [exOrder Pending] ! m ! 0) = Paid)"
proof -
  let ?T = "trace exDigest Num exOps [exOrder Pending]"
  have len: "length ?T = 4" "length (?T ! 0) = 1" "length (?T ! 2) = 1"
    using arg_cong [OF exOps_trace, of length] arg_cong [OF exOps_trace, of "\<lambda>t. length (t ! 0)"]
      arg_cong [OF exOps_trace, of "\<lambda>t. length (t ! 2)"]
    by simp_all
  have "map (map status) ?T ! 0 ! 0 = Pending" "map (map status) ?T ! 2 ! 0 = Analyzed"
    by (simp_all only: exOps_trace) simp_all
  with len have st: "status (?T ! 0 ! 0) = Pending" "status (?T ! 2 ! 0) = Analyzed"
    by simp_all
  have "length exOps = 3" by (simp add: exOps_def)
  with st status_moves_forward_only [of exOps exDigest Num "[exOrder Pending]"]
  have "\<exists>m. 0 < m \<and> m < 2 \<and> status (?T ! m ! 0) = Paid"
    by (auto dest!: conjunct2 spec [of _ 0] spec [of _ 2])
  with exOps_trace show ?thesis by simp
qed

end
